theory Spec2Isabelle
  imports Main "HOL-Library.Sublist" "HOL-Library.Multiset"
begin

section \<open>Python primitives used by kernel\_upgrade.py\<close>

text \<open>
  Strings are \<open>string\<close> (lists of characters); a byte sequence downloaded from the
  network is a \<open>string\<close> as well. Every exception the script can raise on the paths
  modelled here is a value of \<open>error\<close>; a function that can raise returns
  \<open>error + 'a\<close> with \<open>Inl\<close> for the exception.
\<close>

datatype error =
    AttributeError
  | IndexError
  | ValueError
  | TypeError
  | FileNotFoundError
  | IsADirectoryError
  | NotADirectoryError
  | OSError
  | RequestException

text \<open>Sequencing of two steps of which the first may raise.\<close>

definition bind_res :: "error + 'a \<Rightarrow> ('a \<Rightarrow> error + 'b) \<Rightarrow> error + 'b" where
  "bind_res m f = (case m of Inl e \<Rightarrow> Inl e | Inr x \<Rightarrow> f x)"

text \<open>\<^verbatim>\<open>sub in s\<close> on strings: \<open>sub\<close> occurs in \<open>s\<close> as a contiguous block.\<close>

fun py_in :: "string \<Rightarrow> string \<Rightarrow> bool" where
  "py_in sub [] = (sub = [])"
| "py_in sub (c # cs) = (prefix sub (c # cs) \<or> py_in sub cs)"

text \<open>
  \<^verbatim>\<open>xs[i]\<close>: a negative index counts from the end, an index out of range raises
  IndexError.
\<close>

definition py_getitem :: "'a list \<Rightarrow> int \<Rightarrow> error + 'a" where
  "py_getitem xs i =
     (if 0 \<le> i \<and> i < int (length xs) then Inr (xs ! nat i)
      else if i < 0 \<and> - int (length xs) \<le> i then Inr (xs ! nat (int (length xs) + i))
      else Inl IndexError)"

text \<open>
  \<^verbatim>\<open>s.split(d)\<close> for a one-character separator: the pieces between the occurrences of
  \<open>d\<close>, empty pieces kept, so the result is never empty.
\<close>

fun py_split :: "char \<Rightarrow> string \<Rightarrow> string list" where
  "py_split d [] = [[]]"
| "py_split d (c # cs) =
     (if c = d then [] # py_split d cs
      else (case py_split d cs of
              [] \<Rightarrow> [[c]]
            | t # ts \<Rightarrow> (c # t) # ts))"

text \<open>\<^verbatim>\<open>sep.join(xs)\<close>.\<close>

fun py_join :: "string \<Rightarrow> string list \<Rightarrow> string" where
  "py_join sep [] = []"
| "py_join sep [x] = x"
| "py_join sep (x # y # ys) = x @ sep @ py_join sep (y # ys)"

text \<open>
  \<^verbatim>\<open>s.strip()\<close> removes leading and trailing whitespace. A character is a code point
  below 256 here; the whitespace among them is 9 to 13, 28 to 32, 133 and 160.
\<close>

definition py_isspace :: "char \<Rightarrow> bool" where
  "py_isspace c =
     (let n = (of_char c :: nat)
      in (9 \<le> n \<and> n \<le> 13) \<or> (28 \<le> n \<and> n \<le> 32) \<or> n = 133 \<or> n = 160)"

definition py_strip :: "string \<Rightarrow> string" where
  "py_strip s = rev (dropWhile py_isspace (rev (dropWhile py_isspace s)))"

text \<open>
  \<^verbatim>\<open>s.capitalize()\<close>: the first character in upper case, the others in lower case.
  Only the letters a to z and A to Z change case in this model.
\<close>

definition py_upper_char :: "char \<Rightarrow> char" where
  "py_upper_char c =
     (let n = (of_char c :: nat)
      in if 97 \<le> n \<and> n \<le> 122 then char_of (n - 32) else c)"

definition py_lower_char :: "char \<Rightarrow> char" where
  "py_lower_char c =
     (let n = (of_char c :: nat)
      in if 65 \<le> n \<and> n \<le> 90 then char_of (n + 32) else c)"

fun py_capitalize :: "string \<Rightarrow> string" where
  "py_capitalize [] = []"
| "py_capitalize (c # cs) = py_upper_char c # map py_lower_char cs"

section \<open>class Kernel\<close>

text \<open>
  The fields of a \<^verbatim>\<open>Kernel\<close> object after \<^verbatim>\<open>_update\<close>. The page of kernel.org
  is input: \<open>marker\<close> is the text of the element \<^verbatim>\<open>td id="latest_link"\<close>, or
  \<open>None\<close> when \<^verbatim>\<open>soup.find\<close> finds no such element.
\<close>

record kernel =
  major :: string
  minor :: string
  revision :: string
  ver_lst :: "string list"
  ver_str :: string

text \<open>
  \<^verbatim>\<open>_fetch_latest\<close>: \<^verbatim>\<open>soup.find(...).getText().strip().split('.')\<close>, as a tuple.
  \<^verbatim>\<open>None.getText()\<close> raises AttributeError.
\<close>

definition fetch_latest :: "string option \<Rightarrow> error + string list" where
  "fetch_latest marker =
     (case marker of
        None \<Rightarrow> Inl AttributeError
      | Some text \<Rightarrow> Inr (py_split CHR ''.'' (py_strip text)))"

text \<open>
  \<^verbatim>\<open>_update\<close>: the assignment \<^verbatim>\<open>self.major, self.minor, self.revision = ...\<close>
  unpacks the tuple and raises ValueError unless it has exactly three elements.
\<close>

definition update :: "string option \<Rightarrow> error + kernel" where
  "update marker =
     bind_res (fetch_latest marker) (\<lambda>kernel_ver.
       (case kernel_ver of
          [a, b, c] \<Rightarrow>
            Inr \<lparr>major = a, minor = b, revision = c,
                 ver_lst = [a, b, c],
                 ver_str = py_join ''.'' [a, b, c]\<rparr>
        | _ \<Rightarrow> Inl ValueError))"

definition get_latest_ver :: "kernel \<Rightarrow> string" where
  "get_latest_ver k = ver_str k"

section \<open>class Upgrade\<close>

text \<open>
  \<^verbatim>\<open>xs.index(x)\<close>: the position of the first element equal to \<open>x\<close>, ValueError when
  there is none. \<^verbatim>\<open>xs[i] = v\<close> raises IndexError out of range (the index is never
  negative where the script assigns).
\<close>

fun py_index :: "'a list \<Rightarrow> 'a \<Rightarrow> error + nat" where
  "py_index [] x = Inl ValueError"
| "py_index (y # ys) x =
     (if y = x then Inr 0 else bind_res (py_index ys x) (\<lambda>i. Inr (Suc i)))"

definition py_setitem :: "'a list \<Rightarrow> nat \<Rightarrow> 'a \<Rightarrow> error + 'a list" where
  "py_setitem xs i v = (if i < length xs then Inr (xs[i := v]) else Inl IndexError)"

text \<open>
  The world outside the process. The file system is the working directory alone, a flat
  directory of regular files keyed by their names: it has no subdirectory, nothing outside
  it can be reached, it is writable and has room. A file opened for writing is a handle
  with the bytes written and not yet flushed; closing the handle flushes them.
  \<open>w_trace\<close> lists, in the order they happen, the calls that leave the process.
\<close>

datatype event =
    Removed string
  | Requested string
  | Opened string
  | Wrote string string
  | Closed string
  | Launched string
  | Installed string int

record world =
  w_files :: "string \<rightharpoonup> string"
  w_handles :: "(string \<times> string) list"
  w_trace :: "event list"

text \<open>
  What a path names. The pieces between slashes that are empty or \<open>.\<close> do not count.
  A path with a NUL character is refused by Python itself. A path whose pieces are all
  \<open>..\<close>, or that has none, names a directory that exists: the working directory, one
  above it, or the root. Any other absolute path and any other path that starts with
  \<open>..\<close> name nothing in this file system. A first piece longer than 255 bytes (a
  character from 128 on takes two bytes) is refused by the system. A path with further
  pieces goes below the entry its first piece names, which is no directory. A single
  piece names an entry of the working directory, unless it is followed by a slash or a
  dot piece, which only a directory may be.
\<close>

datatype target = Entry string | Directory | Missing | Below string | Unusable | BadPath

definition name_bytes :: "string \<Rightarrow> nat" where
  "name_bytes s = sum_list (map (\<lambda>c. if (of_char c :: nat) < 128 then 1 else 2) s)"

definition resolve_path :: "string \<Rightarrow> target" where
  "resolve_path path =
     (let comps = py_split CHR ''/'' path;
          kept = filter (\<lambda>c. c \<noteq> [] \<and> c \<noteq> ''.'') comps
      in if char_of (0 :: nat) \<in> set path then BadPath
         else if path = [] then Missing
         else if list_all (\<lambda>c. c = ''..'') kept then Directory
         else if hd path = CHR ''/'' then Missing
         else if hd kept = ''..'' then Missing
         else if 255 < name_bytes (hd kept) then Unusable
         else if tl kept \<noteq> [] then Below (hd kept)
         else if last comps = [] \<or> last comps = ''.'' then Unusable
         else Entry (hd kept))"

text \<open>
  What the script reads from outside: the text of the version marker on kernel.org, the
  texts of the links of the listing page of that version, the value of the environment
  variable \<^verbatim>\<open>SUDO_PASS\<close> (\<open>None\<close> when it is not set), the answer to the request of
  an artifact's URL (the content, or the exception \<^verbatim>\<open>requests.get\<close> raises), and the
  run of \<^verbatim>\<open>sudo -S dpkg -i ./name\<close>: the exception \<^verbatim>\<open>Popen\<close> raises when the
  process cannot be started, or the exit status the process ends with once it has read
  the password line. The status may depend on everything that happened before.
\<close>

record env =
  e_marker :: "string option"
  e_links :: "string list"
  e_sudo_pass :: "string option"
  e_http_get :: "string \<Rightarrow> error + string"
  e_dpkg :: "world \<Rightarrow> string \<Rightarrow> error + int"

record upgrade = kernel +
  URL :: string
  return_codes :: "bool list"
  kernel_version :: string
  packages :: "string option list"

text \<open>
  \<^verbatim>\<open>_shorten_name\<close>. \<^verbatim>\<open>None.split\<close> raises AttributeError; \<^verbatim>\<open>base[2]\<close>,
  \<^verbatim>\<open>base[3]\<close> and \<^verbatim>\<open>base[-1].split('_')[1]\<close> raise IndexError on a name with too
  few pieces.
\<close>

definition shorten_name :: "string option \<Rightarrow> error + string" where
  "shorten_name filename =
     (case filename of
        None \<Rightarrow> Inl AttributeError
      | Some fn \<Rightarrow>
          (let base = py_split CHR ''-'' fn in
           bind_res (py_getitem base 2) (\<lambda>b2.
           bind_res (if py_in ''unsigned'' b2 then py_getitem base 3 else py_getitem base 2) (\<lambda>ver.
           bind_res (py_getitem base 1) (\<lambda>b1.
           bind_res (py_getitem base (- 1)) (\<lambda>bl.
           bind_res (py_getitem (py_split CHR ''_'' bl) 1) (\<lambda>a1.
           bind_res (py_getitem (py_split CHR ''.'' a1) 0) (\<lambda>arch.
             Inr (''Linux-'' @ py_capitalize b1 @ ''-'' @ (''v'' @ ver)
                  @ '' ('' @ arch @ '')'')))))))))"

text \<open>
  The condition of the \<^verbatim>\<open>if\<close> in the loop of \<^verbatim>\<open>fetch_deb_lst\<close>, evaluated left to
  right as Python does: \<^verbatim>\<open>links[ittr-1]\<close> is read only when the first disjunct is
  false, and at \<open>ittr = 0\<close> the index is \<open>-1\<close>.
\<close>

definition link_test :: "string \<Rightarrow> string list \<Rightarrow> nat \<Rightarrow> string \<Rightarrow> error + bool" where
  "link_test arch links ittr link =
     bind_res
       (if py_in arch link \<and> \<not> py_in ''BUILD.LOG'' link then Inr True
        else bind_res (py_getitem links (int ittr - 1)) (\<lambda>prev.
               Inr (py_in arch prev \<and> py_in ''all'' link)))
       (\<lambda>b. Inr (b \<and> \<not> py_in ''lowlatency'' link))"

fun fetch_loop :: "string \<Rightarrow> string list \<Rightarrow> (nat \<times> string) list \<Rightarrow> string list
    \<Rightarrow> error + string list" where
  "fetch_loop arch links [] out = Inr out"
| "fetch_loop arch links ((ittr, link) # rest) out =
     bind_res (link_test arch links ittr link) (\<lambda>b.
       fetch_loop arch links rest (if b then out @ [link] else out))"

text \<open>\<^verbatim>\<open>_deb_sort\<close>: one pass of the classifying loop, the loop, and the logging loop
  that shortens every slot of the result.\<close>

definition deb_sort_step :: "string option list \<Rightarrow> string \<Rightarrow> string option list" where
  "deb_sort_step out f =
     (if py_in ''headers'' f \<and> py_in ''all'' f then out[0 := Some f]
      else if py_in ''headers'' f \<and> py_in ''generic'' f then out[1 := Some f]
      else if py_in ''modules'' f \<and> py_in ''generic'' f then out[2 := Some f]
      else if py_in ''image'' f \<and> py_in ''generic'' f then out[3 := Some f]
      else out)"

definition deb_slots :: "string list \<Rightarrow> string option list" where
  "deb_slots fs = foldl deb_sort_step [None, None, None, None] fs"

fun log_queue :: "string option list \<Rightarrow> error + unit" where
  "log_queue [] = Inr ()"
| "log_queue (x # xs) = bind_res (shorten_name x) (\<lambda>_. log_queue xs)"

definition deb_sort :: "string list \<Rightarrow> error + string option list" where
  "deb_sort fs =
     (let out = deb_slots fs
      in bind_res (log_queue out) (\<lambda>_. Inr out))"

text \<open>\<^verbatim>\<open>fetch_deb_lst\<close>, with the link texts of the listing page as argument.\<close>

definition fetch_deb_lst :: "string list \<Rightarrow> string \<Rightarrow> error + string option list" where
  "fetch_deb_lst links arch =
     bind_res (fetch_loop arch links (enumerate 0 links) []) deb_sort"

text \<open>
  The file operations the script uses. \<^verbatim>\<open>os.path.exists\<close> is false for a path
  that cannot be looked up. \<^verbatim>\<open>os.remove\<close> and \<^verbatim>\<open>open(path, 'wb')\<close> raise
  ValueError on a NUL character, IsADirectoryError on a directory,
  FileNotFoundError on a path that names nothing, also on a path below an entry that
  does not exist, NotADirectoryError on a path below a file, and an OSError, of a class
  that is not told apart here, on a name that is too long or is followed by a slash or a
  dot piece. \<open>fs_open_wb\<close> returns the entry it opened, created empty or truncated.
\<close>

definition path_exists :: "string \<Rightarrow> world \<Rightarrow> bool" where
  "path_exists path w =
     (case resolve_path path of
        Entry e \<Rightarrow> w_files w e \<noteq> None
      | Directory \<Rightarrow> True
      | _ \<Rightarrow> False)"

definition fs_remove :: "string \<Rightarrow> world \<Rightarrow> error + world" where
  "fs_remove path w =
     (case resolve_path path of
        Entry e \<Rightarrow>
          if w_files w e = None then Inl FileNotFoundError
          else Inr (w\<lparr>w_files := (w_files w)(e := None), w_trace := w_trace w @ [Removed e]\<rparr>)
      | Directory \<Rightarrow> Inl IsADirectoryError
      | Missing \<Rightarrow> Inl FileNotFoundError
      | Below e \<Rightarrow> Inl (if w_files w e = None then FileNotFoundError else NotADirectoryError)
      | Unusable \<Rightarrow> Inl OSError
      | BadPath \<Rightarrow> Inl ValueError)"

definition fs_open_wb :: "string \<Rightarrow> world \<Rightarrow> error + string \<times> world" where
  "fs_open_wb path w =
     (case resolve_path path of
        Entry e \<Rightarrow>
          Inr (e, w\<lparr>w_files := (w_files w)(e \<mapsto> []),
                    w_handles := (e, []) # w_handles w,
                    w_trace := w_trace w @ [Opened e]\<rparr>)
      | Directory \<Rightarrow> Inl IsADirectoryError
      | Missing \<Rightarrow> Inl FileNotFoundError
      | Below e \<Rightarrow> Inl (if w_files w e = None then FileNotFoundError else NotADirectoryError)
      | Unusable \<Rightarrow> Inl OSError
      | BadPath \<Rightarrow> Inl ValueError)"

definition fs_write :: "string \<Rightarrow> string \<Rightarrow> world \<Rightarrow> world" where
  "fs_write name bytes w =
     w\<lparr>w_handles := map (\<lambda>(n, buf). if n = name then (n, buf @ bytes) else (n, buf)) (w_handles w),
       w_trace := w_trace w @ [Wrote name bytes]\<rparr>"

text \<open>Closing flushes the buffer; closing a file that is not open does nothing.\<close>

definition fs_close :: "string \<Rightarrow> world \<Rightarrow> world" where
  "fs_close name w =
     (case map_of (w_handles w) name of
        None \<Rightarrow> w
      | Some buf \<Rightarrow>
          w\<lparr>w_files := (w_files w)(name \<mapsto> (case w_files w name of None \<Rightarrow> buf | Some old \<Rightarrow> old @ buf)),
            w_handles := filter (\<lambda>(n, b). n \<noteq> name) (w_handles w),
            w_trace := w_trace w @ [Closed name]\<rparr>)"

text \<open>\<^verbatim>\<open>_file_exists\<close> and \<^verbatim>\<open>_delete_file\<close>, on the path \<^verbatim>\<open>f"./{filename}"\<close>;
  each logs the shortened name after the system call.\<close>

definition file_exists :: "string \<Rightarrow> world \<Rightarrow> error + bool" where
  "file_exists filename w =
     (if path_exists (''./'' @ filename) w
      then bind_res (shorten_name (Some filename)) (\<lambda>_. Inr True)
      else Inr False)"

definition delete_file :: "string \<Rightarrow> world \<Rightarrow> (error + unit) \<times> world" where
  "delete_file filename w =
     (case fs_remove (''./'' @ filename) w of
        Inl e \<Rightarrow> (Inl e, w)
      | Inr w1 \<Rightarrow> (bind_res (shorten_name (Some filename)) (\<lambda>_. Inr ()), w1))"

text \<open>\<^verbatim>\<open>_get_pkg_data\<close>: the request is made, and recorded, whether or not it is
  answered.\<close>

definition get_pkg_data :: "env \<Rightarrow> upgrade \<Rightarrow> string \<Rightarrow> world
    \<Rightarrow> (error + string \<times> string) \<times> world" where
  "get_pkg_data en self filename w =
     (case file_exists filename w of
        Inl e \<Rightarrow> (Inl e, w)
      | Inr ex \<Rightarrow>
          (case (if ex then delete_file filename w else (Inr (), w)) of
             (Inl e, w1) \<Rightarrow> (Inl e, w1)
           | (Inr _, w1) \<Rightarrow>
               (let url = URL self @ ''/v'' @ kernel_version self @ ''/'' @ filename;
                    w2 = w1\<lparr>w_trace := w_trace w1 @ [Requested url]\<rparr>
                in case e_http_get en url of
                     Inl e \<Rightarrow> (Inl e, w2)
                   | Inr content \<Rightarrow> (Inr (filename, content), w2))))"

text \<open>\<^verbatim>\<open>_write_pkg_data\<close>: the \<^verbatim>\<open>with\<close> block opens, writes and closes; the
  \<^verbatim>\<open>f.close()\<close> after it closes again. When \<^verbatim>\<open>open\<close> raises nothing is
  written.\<close>

definition write_pkg_data :: "string \<times> string \<Rightarrow> world \<Rightarrow> (error + unit) \<times> world" where
  "write_pkg_data fetch_resp w =
     (case fetch_resp of
        (name, resp) \<Rightarrow>
          (case fs_open_wb name w of
             Inl e \<Rightarrow> (Inl e, w)
           | Inr (f, w1) \<Rightarrow> (Inr (), fs_close f (fs_close f (fs_write f resp w1)))))"

definition get_deb :: "env \<Rightarrow> upgrade \<Rightarrow> string option \<Rightarrow> world \<Rightarrow> (error + unit) \<times> world" where
  "get_deb en self deb w =
     (case shorten_name deb of
        Inl e \<Rightarrow> (Inl e, w)
      | Inr _ \<Rightarrow>
          (case deb of
             None \<Rightarrow> (Inl AttributeError, w)
           | Some filename \<Rightarrow>
               (case get_pkg_data en self filename w of
                  (Inl e, w1) \<Rightarrow> (Inl e, w1)
                | (Inr f, w1) \<Rightarrow> write_pkg_data f w1)))"

text \<open>
  \<^verbatim>\<open>_install_deb\<close>: \<^verbatim>\<open>Popen\<close> starts the process or raises; then
  \<^verbatim>\<open>SUDO_PASS + '\n'\<close> raises TypeError when the variable is not set, with the
  process already started; otherwise the process reads the password line and ends, the
  shortened name is logged and the exit status returned.
\<close>

definition priv_install_deb :: "env \<Rightarrow> string \<Rightarrow> world \<Rightarrow> (error + int) \<times> world" where
  "priv_install_deb en filename w =
     (case e_dpkg en w filename of
        Inl e \<Rightarrow> (Inl e, w)
      | Inr rc \<Rightarrow>
          (let w1 = w\<lparr>w_trace := w_trace w @ [Launched filename]\<rparr>
           in case e_sudo_pass en of
                None \<Rightarrow> (Inl TypeError, w1)
              | Some pw \<Rightarrow>
                  (bind_res (shorten_name (Some filename)) (\<lambda>_. Inr rc),
                   w1\<lparr>w_trace := w_trace w1 @ [Installed filename rc]\<rparr>)))"

text \<open>\<^verbatim>\<open>_rc_check\<close>: on exit status 0 the flag at
  \<^verbatim>\<open>self.packages.index(deb_name)\<close> is set; the two debug lines after the assignment
  shorten the name and look the index up again.\<close>

definition rc_check :: "int \<Rightarrow> string option \<Rightarrow> upgrade \<Rightarrow> error + upgrade" where
  "rc_check rc deb_name self =
     (if rc = 0 then
        bind_res (shorten_name deb_name) (\<lambda>_.
        bind_res (py_index (packages self) deb_name) (\<lambda>i.
        bind_res (py_setitem (return_codes self) i True) (\<lambda>rcs.
        bind_res (shorten_name deb_name) (\<lambda>_.
        bind_res (py_index (packages self) deb_name) (\<lambda>_.
          Inr (self\<lparr>return_codes := rcs\<rparr>))))))
      else Inr self)"

definition install_deb :: "env \<Rightarrow> string option \<Rightarrow> upgrade \<Rightarrow> world
    \<Rightarrow> (error + upgrade) \<times> world" where
  "install_deb en deb self w =
     (case shorten_name deb of
        Inl e \<Rightarrow> (Inl e, w)
      | Inr _ \<Rightarrow>
          (case deb of
             None \<Rightarrow> (Inl AttributeError, w)
           | Some filename \<Rightarrow>
               (case priv_install_deb en filename w of
                  (Inl e, w1) \<Rightarrow> (Inl e, w1)
                | (Inr rc, w1) \<Rightarrow> (rc_check rc deb self, w1))))"

text \<open>\<^verbatim>\<open>install_all_debs\<close>: the loop over \<^verbatim>\<open>self.packages\<close>; an exception ends it.\<close>

fun install_loop :: "env \<Rightarrow> string option list \<Rightarrow> upgrade \<Rightarrow> world
    \<Rightarrow> (error + upgrade) \<times> world" where
  "install_loop en [] self w = (Inr self, w)"
| "install_loop en (deb # debs) self w =
     (case get_deb en self deb w of
        (Inl e, w1) \<Rightarrow> (Inl e, w1)
      | (Inr _, w1) \<Rightarrow>
          (case install_deb en deb self w1 of
             (Inl e, w2) \<Rightarrow> (Inl e, w2)
           | (Inr self', w2) \<Rightarrow> install_loop en debs self' w2))"

definition install_all_debs :: "env \<Rightarrow> upgrade \<Rightarrow> world \<Rightarrow> (error + upgrade) \<times> world" where
  "install_all_debs en self w = install_loop en (packages self) self w"

text \<open>\<^verbatim>\<open>Upgrade.__init__\<close>: the version, the plan for the default architecture, the
  installation.\<close>

definition Upgrade_init :: "env \<Rightarrow> world \<Rightarrow> (error + upgrade) \<times> world" where
  "Upgrade_init en w =
     (case update (e_marker en) of
        Inl e \<Rightarrow> (Inl e, w)
      | Inr k \<Rightarrow>
          (case fetch_deb_lst (e_links en) ''amd64'' of
             Inl e \<Rightarrow> (Inl e, w)
           | Inr pkgs \<Rightarrow>
               install_all_debs en
                 \<lparr>major = major k, minor = minor k, revision = revision k,
                  ver_lst = ver_lst k, ver_str = ver_str k,
                  URL = ''https://kernel.ubuntu.com/~kernel-ppa/mainline'',
                  return_codes = [False, False, False, False],
                  kernel_version = get_latest_ver k,
                  packages = pkgs\<rparr> w))"

text \<open>\<^verbatim>\<open>main\<close>: the value is \<^verbatim>\<open>all(u.return_codes)\<close>, which selects the final
  message.\<close>

definition main :: "env \<Rightarrow> world \<Rightarrow> (error + bool) \<times> world" where
  "main en w =
     (case Upgrade_init en w of
        (Inl e, w1) \<Rightarrow> (Inl e, w1)
      | (Inr u, w1) \<Rightarrow> (Inr (list_all (\<lambda>b. b) (return_codes u)), w1))"

section \<open>The specification's notions\<close>

text \<open>
  The inclusion filter in the specification's words: a link is a candidate iff it has no
  low-latency marker and either contains the architecture token and no build-log marker,
  or contains \<open>all\<close> and the link immediately before it in the listing contains the
  architecture token. The first link of a listing has no link before it.
\<close>

definition spec_included :: "string \<Rightarrow> string list \<Rightarrow> nat \<Rightarrow> bool" where
  "spec_included arch links i =
     (\<not> py_in ''lowlatency'' (links ! i)
      \<and> ((py_in arch (links ! i) \<and> \<not> py_in ''BUILD.LOG'' (links ! i))
         \<or> (py_in ''all'' (links ! i) \<and> 0 < i \<and> py_in arch (links ! (i - 1)))))"

definition spec_candidates :: "string \<Rightarrow> string list \<Rightarrow> string list" where
  "spec_candidates arch links =
     map (\<lambda>i. links ! i) (filter (spec_included arch links) [0..<length links])"

text \<open>
  The link that \<^verbatim>\<open>links[ittr-1]\<close> reads in a non-empty listing, and the test the loop
  of \<^verbatim>\<open>fetch_deb_lst\<close> applies to the link at position \<open>i\<close>.
\<close>

definition prev_link :: "string list \<Rightarrow> nat \<Rightarrow> string" where
  "prev_link links i = (if i = 0 then last links else links ! (i - 1))"

definition passes :: "string \<Rightarrow> string list \<Rightarrow> nat \<Rightarrow> string \<Rightarrow> bool" where
  "passes arch links i link =
     (((py_in arch link \<and> \<not> py_in ''BUILD.LOG'' link)
        \<or> (py_in arch (prev_link links i) \<and> py_in ''all'' link))
      \<and> \<not> py_in ''lowlatency'' link)"

definition candidates :: "string \<Rightarrow> string list \<Rightarrow> string list" where
  "candidates arch links =
     map snd (filter (\<lambda>(i, link). passes arch links i link) (enumerate 0 links))"

text \<open>
  The four roles in canonical order, the slot of each, the substrings that identify each,
  and classification by priority: the first role in canonical order whose substrings the
  name contains.
\<close>

datatype role = HeadersCommon | HeadersArch | Modules | Image

definition roles :: "role list" where
  "roles = [HeadersCommon, HeadersArch, Modules, Image]"

fun slot :: "role \<Rightarrow> nat" where
  "slot HeadersCommon = 0"
| "slot HeadersArch = 1"
| "slot Modules = 2"
| "slot Image = 3"

fun role_match :: "role \<Rightarrow> string \<Rightarrow> bool" where
  "role_match HeadersCommon f = (py_in ''headers'' f \<and> py_in ''all'' f)"
| "role_match HeadersArch f = (py_in ''headers'' f \<and> py_in ''generic'' f)"
| "role_match Modules f = (py_in ''modules'' f \<and> py_in ''generic'' f)"
| "role_match Image f = (py_in ''image'' f \<and> py_in ''generic'' f)"

definition classify :: "string \<Rightarrow> role option" where
  "classify f = find (\<lambda>r. role_match r f) roles"

text \<open>The last element of a list, if there is one.\<close>

definition last_opt :: "'a list \<Rightarrow> 'a option" where
  "last_opt xs = (if xs = [] then None else Some (last xs))"

text \<open>
  A link that the filter excludes wherever it stands: it has a low-latency marker, or it
  passes neither branch, having no \<open>all\<close> and not the architecture token without a
  build-log marker.
\<close>

definition never_candidate :: "string \<Rightarrow> string \<Rightarrow> bool" where
  "never_candidate arch l \<longleftrightarrow>
     py_in ''lowlatency'' l
     \<or> (\<not> (py_in arch l \<and> \<not> py_in ''BUILD.LOG'' l) \<and> \<not> py_in ''all'' l)"

text \<open>
  A valid listing for an architecture, with \<open>ents\<close> its four role entries in canonical
  order: each entry is in the listing, classifies to its role and has no low-latency
  marker; the three architecture-specific entries contain the architecture token and no
  build-log marker; every other link of the listing is excluded, by the filter wherever
  it stands or by matching no role.
\<close>

definition valid_listing :: "string \<Rightarrow> string list \<Rightarrow> string list \<Rightarrow> bool" where
  "valid_listing arch links ents \<longleftrightarrow>
     length ents = 4
     \<and> (\<forall>r\<in>set roles. ents ! slot r \<in> set links \<and> classify (ents ! slot r) = Some r
           \<and> \<not> py_in ''lowlatency'' (ents ! slot r))
     \<and> (\<forall>r\<in>set roles. r \<noteq> HeadersCommon \<longrightarrow>
           py_in arch (ents ! slot r) \<and> \<not> py_in ''BUILD.LOG'' (ents ! slot r))
     \<and> (\<forall>l\<in>set links. never_candidate arch l \<or> classify l = None \<or> l \<in> set ents)"

text \<open>
  The entry \<open>e\<close> stands at a position of the listing where the specification's
  inclusion test holds: it contains the architecture token and no build-log marker, or it
  contains \<open>all\<close> and directly follows a link that contains the architecture token.
\<close>

definition entry_spec_included :: "string \<Rightarrow> string list \<Rightarrow> string \<Rightarrow> bool" where
  "entry_spec_included arch links e \<longleftrightarrow>
     (\<exists>i\<in>set [0..<length links]. links ! i = e \<and> spec_included arch links i)"

section \<open>What a run does, step by step\<close>

text \<open>The URL an artifact is requested from, as \<^verbatim>\<open>_get_pkg_data\<close> builds it.\<close>

definition artifact_url :: "upgrade \<Rightarrow> string \<Rightarrow> string" where
  "artifact_url self name = URL self @ ''/v'' @ kernel_version self @ ''/'' @ name"

text \<open>
  The world after the entry \<open>e\<close> has been removed if it exists. The world after a
  fetch that returns, of the entry \<open>e\<close> from \<open>url\<close> with the bytes served: the
  entry is removed if it exists, the content is requested, and the file is opened,
  written and closed. The world after an installer run on a name that ended with status
  \<open>rc\<close>.
\<close>

definition cleared :: "string \<Rightarrow> world \<Rightarrow> world" where
  "cleared e w =
     (if w_files w e \<noteq> None
      then w\<lparr>w_files := (w_files w)(e := None), w_trace := w_trace w @ [Removed e]\<rparr>
      else w)"

definition fetched :: "string \<Rightarrow> string \<Rightarrow> string \<Rightarrow> world \<Rightarrow> world" where
  "fetched url e bytes w =
     w\<lparr>w_files := (w_files w)(e \<mapsto> bytes),
       w_handles := filter (\<lambda>(n, b). n \<noteq> e) (w_handles w),
       w_trace := w_trace w @ (if w_files w e \<noteq> None then [Removed e] else [])
                  @ [Requested url, Opened e, Wrote e bytes, Closed e]\<rparr>"

definition installed :: "string \<Rightarrow> int \<Rightarrow> world \<Rightarrow> world" where
  "installed name rc w = w\<lparr>w_trace := w_trace w @ [Launched name, Installed name rc]\<rparr>"

text \<open>
  A slot of a run is a name of the plan, the entry of the working directory the name
  stands for, the bytes served for it and the status its installer run ended with.
  \<open>after_slots\<close> is the world after fetching and installing a list of slots in order.
  \<open>answered\<close> says that the slots are what the environment answers along that run:
  each name resolves to its entry, the request of its URL is answered with its bytes, and
  the installer process, started in the world the fetch leaves, ends with its status.
\<close>

fun after_slots :: "upgrade \<Rightarrow> (string \<times> string \<times> string \<times> int) list \<Rightarrow> world \<Rightarrow> world" where
  "after_slots self [] w = w"
| "after_slots self ((name, e, bytes, rc) # slots) w =
     after_slots self slots (installed name rc (fetched (artifact_url self name) e bytes w))"

fun answered :: "env \<Rightarrow> upgrade \<Rightarrow> (string \<times> string \<times> string \<times> int) list \<Rightarrow> world \<Rightarrow> bool" where
  "answered en self [] w = True"
| "answered en self ((name, e, bytes, rc) # slots) w =
     (resolve_path name = Entry e
      \<and> e_http_get en (artifact_url self name) = Inr bytes
      \<and> e_dpkg en (fetched (artifact_url self name) e bytes w) name = Inr rc
      \<and> answered en self slots (installed name rc (fetched (artifact_url self name) e bytes w)))"

text \<open>The calls of a trace that concern an artifact: a request or a finished installer
  run.\<close>

fun is_call :: "event \<Rightarrow> bool" where
  "is_call (Requested url) = True"
| "is_call (Installed name rc) = True"
| "is_call _ = False"

definition calls :: "event list \<Rightarrow> event list" where
  "calls tr = filter is_call tr"

text \<open>
  An environment in which nothing but the installer's exit status can go wrong: the
  password is set, every request is answered and every installer process starts.
\<close>

definition no_failure :: "env \<Rightarrow> bool" where
  "no_failure en \<longleftrightarrow>
     e_sudo_pass en \<noteq> None
     \<and> (\<forall>url. \<exists>bytes. e_http_get en url = Inr bytes)
     \<and> (\<forall>w name. \<exists>rc. e_dpkg en w name = Inr rc)"

section \<open>Sample inputs\<close>

text \<open>
  A server that answers every request with the URL itself as content, an installer whose
  exit status is looked up by file name in a table (0 when the name is not in it), and a
  working directory with no file, no open handle and no call made.
\<close>

definition serve_url :: "string \<Rightarrow> error + string" where
  "serve_url url = Inr url"

definition dpkg_table :: "(string \<times> int) list \<Rightarrow> world \<Rightarrow> string \<Rightarrow> error + int" where
  "dpkg_table tbl w name = Inr (case map_of tbl name of None \<Rightarrow> 0 | Some rc \<Rightarrow> rc)"

definition empty_world :: world where
  "empty_world = \<lparr>w_files = Map.empty, w_handles = [], w_trace = []\<rparr>"

text \<open>
  The object \<^verbatim>\<open>Upgrade.__init__\<close> builds for version 6.2.1 with a given plan, and an
  environment that serves version 6.2.1 and a given listing, has the password set, and
  answers and installs as above.
\<close>

definition sample_upgrade :: "string option list \<Rightarrow> upgrade" where
  "sample_upgrade pkgs =
     \<lparr>major = ''6'', minor = ''2'', revision = ''1'',
      ver_lst = [''6'', ''2'', ''1''], ver_str = ''6.2.1'',
      URL = ''https://kernel.ubuntu.com/~kernel-ppa/mainline'',
      return_codes = [False, False, False, False],
      kernel_version = ''6.2.1'',
      packages = pkgs\<rparr>"

definition sample_env :: "string list \<Rightarrow> (string \<times> int) list \<Rightarrow> env" where
  "sample_env links tbl =
     \<lparr>e_marker = Some ''6.2.1'', e_links = links, e_sudo_pass = Some ''secret'',
      e_http_get = serve_url, e_dpkg = dpkg_table tbl\<rparr>"

section \<open>Facts about the primitives\<close>

lemma py_split_not_Nil: "py_split d s \<noteq> []"
  by (induction s) (auto split: list.splits)

lemma py_join_Cons: "ys \<noteq> [] \<Longrightarrow> py_join sep (x # ys) = x @ sep @ py_join sep ys"
  by (cases ys) simp_all

lemma py_join_split: "py_join [d] (py_split d s) = s"
proof (induction s)
  case Nil
  show ?case by simp
next
  case (Cons c cs)
  show ?case
  proof (cases "c = d")
    case True
    with Cons show ?thesis
      by (simp add: py_join_Cons py_split_not_Nil)
  next
    case False
    obtain t ts where ts: "py_split d cs = t # ts"
      using py_split_not_Nil [of d cs] by (cases "py_split d cs") auto
    have "py_join [d] ((c # t) # ts) = c # py_join [d] (t # ts)"
      by (cases ts) simp_all
    with False ts Cons show ?thesis by simp
  qed
qed

section \<open>Version resolution\<close>

lemma update_Some:
  "update (Some text) =
     (case py_split CHR ''.'' (py_strip text) of
        [a, b, c] \<Rightarrow> Inr \<lparr>major = a, minor = b, revision = c, ver_lst = [a, b, c],
                          ver_str = py_join ''.'' [a, b, c]\<rparr>
      | _ \<Rightarrow> Inl ValueError)"
  by (simp add: update_def fetch_latest_def bind_res_def)

lemma length_three: "length xs = 3 \<longleftrightarrow> (\<exists>a b c. xs = [a, b, c])"
  by (auto simp: length_Suc_conv numeral_3_eq_3)

text \<open>
  C6, as the code has it. The script defines no exception of its own. When the split of
  the stripped marker text does not have exactly three pieces, the tuple unpacking in
  \<^verbatim>\<open>_update\<close> raises ValueError; when the marker element is absent,
  \<^verbatim>\<open>_fetch_latest\<close> raises AttributeError. Version resolution fails in both cases,
  with two different built-in exceptions.
\<close>

theorem update_fails:
  "(length (py_split CHR ''.'' (py_strip text)) \<noteq> 3 \<longrightarrow> update (Some text) = Inl ValueError)
   \<and> update None = Inl AttributeError"
proof -
  have "update (Some text) = Inl ValueError"
    if "length (py_split CHR ''.'' (py_strip text)) \<noteq> 3"
    using that by (auto simp: update_Some split: list.splits)
  moreover have "update None = Inl AttributeError"
    by (simp add: update_def fetch_latest_def bind_res_def)
  ultimately show ?thesis by blast
qed

theorem update_fails_witness:
  "length (py_split CHR ''.'' (py_strip ''6.2.1.4'')) \<noteq> 3
   \<and> update (Some ''6.2.1.4'') = Inl ValueError"
proof -
  have h: "length (py_split CHR ''.'' (py_strip ''6.2.1.4'')) \<noteq> 3"
    by (simp add: py_strip_def py_isspace_def)
  with update_fails [of "''6.2.1.4''"] show ?thesis by blast
qed

text \<open>
  C6 as stated names one error kind, VersionParseError, for both failures. On a
  two-piece version and on an absent marker the code raises two different exceptions,
  neither of them a version parse error of the script's own.
\<close>

theorem update_error_kinds_counterexample:
  "update (Some ''6.2'') = Inl ValueError \<and> update None = Inl AttributeError"
  by (simp add: update_def fetch_latest_def bind_res_def py_strip_def py_isspace_def)

text \<open>
  C7. The version string is the marker text as the resolver reads it, that is without
  surrounding whitespace. Whenever it splits into three pieces, \<^verbatim>\<open>_update\<close> returns,
  the three fields are the three pieces, and the dot-joined \<^verbatim>\<open>ver_str\<close> is that
  string again, character for character.
\<close>

theorem version_round_trip:
  assumes "length (py_split CHR ''.'' (py_strip text)) = 3"
  shows "\<exists>k. update (Some text) = Inr k
           \<and> py_split CHR ''.'' (py_strip text) = [major k, minor k, revision k]
           \<and> ver_lst k = [major k, minor k, revision k]
           \<and> ver_str k = py_strip text"
proof -
  from assms obtain a b c where abc: "py_split CHR ''.'' (py_strip text) = [a, b, c]"
    by (auto simp: length_three)
  have "py_join ''.'' (py_split CHR ''.'' (py_strip text)) = py_strip text"
    by (rule py_join_split)
  with abc have "py_join ''.'' [a, b, c] = py_strip text" by simp
  with abc show ?thesis by (simp add: update_Some)
qed

theorem version_round_trip_witness:
  "length (py_split CHR ''.'' (py_strip ''6.2.1'')) = 3
   \<and> (\<exists>k. update (Some ''6.2.1'') = Inr k \<and> ver_str k = ''6.2.1'')"
proof -
  have s: "py_strip ''6.2.1'' = ''6.2.1''"
    by (simp add: py_strip_def py_isspace_def)
  have h: "length (py_split CHR ''.'' (py_strip ''6.2.1'')) = 3"
    by (simp add: s)
  from version_round_trip [OF h] s h show ?thesis by auto
qed

section \<open>The inclusion filter\<close>

lemma py_getitem_prev:
  assumes "i < length links"
  shows "py_getitem links (int i - 1) = Inr (prev_link links i)"
proof (cases "i = 0")
  case True
  from assms have ne: "links \<noteq> []" by auto
  from assms have pos: "1 \<le> length links" by linarith
  then have n: "nat (int (length links) - 1) = length links - 1" by linarith
  from pos have le: "- int (length links) \<le> - 1" by linarith
  have "py_getitem links (- 1) = Inr (links ! (length links - 1))"
    using le n by (simp add: py_getitem_def)
  with True ne show ?thesis
    by (simp add: prev_link_def last_conv_nth)
next
  case False
  then have "nat (int i - 1) = i - 1" by simp
  with False assms show ?thesis
    by (simp add: py_getitem_def prev_link_def)
qed

lemma link_test_passes:
  "i < length links \<Longrightarrow> link_test arch links i link = Inr (passes arch links i link)"
  by (auto simp: link_test_def passes_def bind_res_def py_getitem_prev)

lemma fetch_loop_filter:
  "(\<And>p. p \<in> set ps \<Longrightarrow> fst p < length links) \<Longrightarrow>
   fetch_loop arch links ps out =
     Inr (out @ map snd (filter (\<lambda>(i, link). passes arch links i link) ps))"
proof (induction ps arbitrary: out)
  case Nil
  show ?case by simp
next
  case (Cons p ps)
  obtain i link where p: "p = (i, link)" by (cases p)
  from Cons.prems [of p] p have i: "i < length links" by simp
  have "\<And>q. q \<in> set ps \<Longrightarrow> fst q < length links"
    using Cons.prems by simp
  from Cons.IH [OF this] i p show ?case
    by (simp add: link_test_passes bind_res_def)
qed

lemma fetch_loop_candidates:
  "fetch_loop arch links (enumerate 0 links) [] = Inr (candidates arch links)"
  unfolding candidates_def
  by (subst fetch_loop_filter) (auto simp: in_set_enumerate_eq)

lemma fetch_deb_lst_eq: "fetch_deb_lst links arch = deb_sort (candidates arch links)"
  by (simp add: fetch_deb_lst_def fetch_loop_candidates bind_res_def)

lemma enumerate_map_nth: "enumerate 0 xs = map (\<lambda>i. (i, xs ! i)) [0..<length xs]"
  by (rule nth_equalityI) (simp_all add: nth_enumerate_eq)

lemma candidates_nth:
  "candidates arch links =
     map (\<lambda>i. links ! i) (filter (\<lambda>i. passes arch links i (links ! i)) [0..<length links])"
  by (simp add: candidates_def enumerate_map_nth filter_map comp_def)

text \<open>
  C9. In a non-empty listing \<^verbatim>\<open>links[0-1]\<close> is the last link. So when the first link
  contains \<open>all\<close> and no low-latency marker, its test is true iff it passes by its own
  architecture token or the last link contains the architecture token; in the second case
  the first link is the first candidate the loop returns.
\<close>

theorem first_link_wraps:
  assumes "links \<noteq> []"
    and "py_in ''all'' (hd links)"
    and "\<not> py_in ''lowlatency'' (hd links)"
  shows "py_getitem links (int 0 - 1) = Inr (last links)
       \<and> link_test arch links 0 (hd links) =
           Inr ((py_in arch (hd links) \<and> \<not> py_in ''BUILD.LOG'' (hd links))
                \<or> py_in arch (last links))
       \<and> (py_in arch (last links) \<longrightarrow>
            (\<exists>rest. fetch_loop arch links (enumerate 0 links) [] = Inr (hd links # rest)))"
proof -
  from assms(1) obtain l ls where links: "links = l # ls" by (cases links) auto
  then have len: "0 < length links" by simp
  have g: "py_getitem links (int 0 - 1) = Inr (last links)"
    using py_getitem_prev [OF len] by (simp add: prev_link_def)
  have t: "link_test arch links 0 (hd links) =
           Inr ((py_in arch (hd links) \<and> \<not> py_in ''BUILD.LOG'' (hd links))
                \<or> py_in arch (last links))"
    using assms(2,3) by (auto simp: link_test_passes [OF len] passes_def prev_link_def)
  have "\<exists>rest. fetch_loop arch links (enumerate 0 links) [] = Inr (hd links # rest)"
    if "py_in arch (last links)"
  proof -
    from that assms(2,3) have "passes arch links 0 l"
      by (simp add: passes_def prev_link_def links)
    then have "candidates arch links =
        l # map snd (filter (\<lambda>(i, link). passes arch links i link) (enumerate 1 ls))"
      by (simp add: candidates_def links)
    moreover have "fetch_loop arch links (enumerate 0 links) [] = Inr (candidates arch links)"
      by (rule fetch_loop_candidates)
    moreover have "hd links = l" by (simp add: links)
    ultimately show ?thesis by (intro exI) (simp only:)
  qed
  with g t show ?thesis by blast
qed

theorem first_link_wraps_witness:
  "[''h_all'', ''i_amd64''] \<noteq> []
   \<and> py_in ''all'' (hd [''h_all'', ''i_amd64''])
   \<and> \<not> py_in ''lowlatency'' (hd [''h_all'', ''i_amd64''])
   \<and> py_in ''amd64'' (last [''h_all'', ''i_amd64''])
   \<and> (\<exists>rest. fetch_loop ''amd64'' [''h_all'', ''i_amd64'']
         (enumerate 0 [''h_all'', ''i_amd64'']) [] = Inr (hd [''h_all'', ''i_amd64''] # rest))"
proof -
  have a: "[''h_all'', ''i_amd64''] \<noteq> []" by simp
  have b: "py_in ''all'' (hd [''h_all'', ''i_amd64''])" by simp
  have c: "\<not> py_in ''lowlatency'' (hd [''h_all'', ''i_amd64''])" by simp
  have d: "py_in ''amd64'' (last [''h_all'', ''i_amd64''])" by simp
  from first_link_wraps [OF a b c, of "''amd64''"] a b c d show ?thesis by blast
qed

text \<open>
  C3 at a listing whose first link is the architecture-independent headers package. The
  first link has no link before it, so by the specification's filter only the image is a
  candidate; the loop reads \<^verbatim>\<open>links[-1]\<close>, the image, and includes the headers
  package too.
\<close>

theorem first_link_without_predecessor:
  "fetch_loop ''amd64''
     [''linux-headers-6.2.1-060201_all.deb'', ''linux-image-6.2.1-060201-generic_6.2.1_amd64.deb'']
     (enumerate 0 [''linux-headers-6.2.1-060201_all.deb'',
                   ''linux-image-6.2.1-060201-generic_6.2.1_amd64.deb'']) []
   = Inr [''linux-headers-6.2.1-060201_all.deb'', ''linux-image-6.2.1-060201-generic_6.2.1_amd64.deb'']
   \<and> spec_candidates ''amd64''
       [''linux-headers-6.2.1-060201_all.deb'', ''linux-image-6.2.1-060201-generic_6.2.1_amd64.deb'']
     = [''linux-image-6.2.1-060201-generic_6.2.1_amd64.deb'']"
  by code_simp

section \<open>Classification and plan assembly\<close>

lemma deb_sort_step_classify:
  "deb_sort_step out f =
     (case find (\<lambda>r. role_match r f) [HeadersCommon, HeadersArch, Modules, Image] of
        None \<Rightarrow> out
      | Some r \<Rightarrow> out[slot r := Some f])"
  by (simp add: deb_sort_step_def)

lemma deb_sort_step_eq:
  "deb_sort_step out f = (case classify f of None \<Rightarrow> out | Some r \<Rightarrow> out[slot r := Some f])"
  by (simp add: deb_sort_step_def classify_def roles_def)

lemma deb_slots_snoc: "deb_slots (fs @ [f]) = deb_sort_step (deb_slots fs) f"
  by (simp add: deb_slots_def)

lemma length_deb_sort_step: "length (deb_sort_step out f) = length out"
  by (simp add: deb_sort_step_def)

lemma length_deb_slots: "length (deb_slots fs) = 4"
  by (induction fs rule: rev_induct) (simp_all add: deb_slots_def length_deb_sort_step)

lemma slot_less: "slot r < 4"
  by (cases r) simp_all

lemma slot_eq_iff: "slot r = slot r' \<longleftrightarrow> r = r'"
  by (cases r; cases r') simp_all

lemma deb_slots_nth:
  "deb_slots fs ! slot r = last_opt (filter (\<lambda>f. classify f = Some r) fs)"
proof (induction fs rule: rev_induct)
  case Nil
  show ?case by (cases r) (simp_all add: deb_slots_def last_opt_def)
next
  case (snoc f fs)
  show ?case
  proof (cases "classify f")
    case None
    with snoc show ?thesis
      by (simp add: deb_slots_snoc deb_sort_step_eq)
  next
    case (Some r')
    have "slot r < length (deb_slots fs)"
      by (simp add: length_deb_slots slot_less)
    with Some snoc show ?thesis
      by (auto simp: deb_slots_snoc deb_sort_step_eq last_opt_def slot_eq_iff)
  qed
qed

lemma deb_sort_drop_unmatched:
  assumes "classify f = None"
  shows "deb_sort (xs @ f # ys) = deb_sort (xs @ ys)"
proof -
  from assms have "deb_sort_step out f = out" for out
    by (simp add: deb_sort_step_eq)
  then have "deb_slots (xs @ f # ys) = deb_slots (xs @ ys)"
    by (simp add: deb_slots_def)
  then show ?thesis by (simp add: deb_sort_def)
qed

section \<open>The logging loop of the plan\<close>

lemma py_getitem_error: "py_getitem xs i = Inl e \<Longrightarrow> e = IndexError"
  by (simp add: py_getitem_def split: if_splits)

lemma bind_res_Inl:
  "bind_res m f = Inl e \<longleftrightarrow> m = Inl e \<or> (\<exists>x. m = Inr x \<and> f x = Inl e)"
  by (cases m) (simp_all add: bind_res_def)

lemma bind_res_Inr:
  "bind_res m f = Inr y \<longleftrightarrow> (\<exists>x. m = Inr x \<and> f x = Inr y)"
  by (cases m) (simp_all add: bind_res_def)

lemma shorten_name_None: "shorten_name None = Inl AttributeError"
  by (simp add: shorten_name_def)

lemma shorten_name_Some_error: "shorten_name (Some fn) = Inl e \<Longrightarrow> e = IndexError"
  by (auto simp: shorten_name_def Let_def bind_res_Inl dest: py_getitem_error split: if_splits)

lemma shorten_name_error:
  "shorten_name x = Inl e \<Longrightarrow> e = AttributeError \<or> e = IndexError"
  by (cases x) (auto simp: shorten_name_None dest: shorten_name_Some_error)

lemma log_queue_Inr_iff:
  "log_queue xs = Inr u \<longleftrightarrow> (\<forall>x\<in>set xs. \<exists>n. shorten_name x = Inr n)"
  by (induction xs) (auto simp: bind_res_Inr)

lemma log_queue_error:
  "log_queue xs = Inl e \<Longrightarrow> e = AttributeError \<or> e = IndexError"
  by (induction xs) (auto simp: bind_res_Inl dest: shorten_name_error)

lemma log_queue_None:
  assumes "None \<in> set xs"
  shows "\<exists>e. log_queue xs = Inl e \<and> (e = AttributeError \<or> e = IndexError)"
proof (cases "log_queue xs")
  case (Inl e)
  then show ?thesis using log_queue_error by blast
next
  case (Inr u)
  with assms obtain n where "shorten_name None = Inr n"
    by (auto simp: log_queue_Inr_iff)
  then show ?thesis by (simp add: shorten_name_None)
qed

lemma deb_sort_Inr_iff:
  "deb_sort fs = Inr pkgs \<longleftrightarrow>
     pkgs = deb_slots fs \<and> (\<forall>x\<in>set (deb_slots fs). \<exists>n. shorten_name x = Inr n)"
  by (auto simp: deb_sort_def Let_def bind_res_Inr log_queue_Inr_iff)

lemma deb_sort_incomplete:
  assumes "None \<in> set (deb_slots fs)"
  shows "\<exists>e. deb_sort fs = Inl e \<and> (e = AttributeError \<or> e = IndexError)"
  using log_queue_None [OF assms] by (auto simp: deb_sort_def Let_def bind_res_def)

section \<open>The plan that is returned\<close>

lemma deb_slots_roles:
  "deb_slots fs = map (\<lambda>r. last_opt (filter (\<lambda>c. classify c = Some r) fs)) roles"
proof (rule nth_equalityI)
  show "length (deb_slots fs) = length (map (\<lambda>r. last_opt (filter (\<lambda>c. classify c = Some r) fs)) roles)"
    by (simp add: length_deb_slots roles_def)
next
  fix i assume "i < length (deb_slots fs)"
  then have "i < 4" by (simp add: length_deb_slots)
  then have "i = 0 \<or> i = 1 \<or> i = 2 \<or> i = 3" by linarith
  then show "deb_slots fs ! i = map (\<lambda>r. last_opt (filter (\<lambda>c. classify c = Some r) fs)) roles ! i"
    using deb_slots_nth [of fs HeadersCommon] deb_slots_nth [of fs HeadersArch]
      deb_slots_nth [of fs Modules] deb_slots_nth [of fs Image]
    by (auto simp: roles_def)
qed

text \<open>
  C5. One pass of the classifying loop of \<^verbatim>\<open>_deb_sort\<close> finds the first role, in
  the order headers with \<open>all\<close>, headers with \<open>generic\<close>, modules, image, whose
  substrings the candidate contains, and stores the candidate in the slot of that role;
  this first role is the candidate's classification. \<^verbatim>\<open>fetch_deb_lst\<close> returns what
  \<^verbatim>\<open>_deb_sort\<close> returns on the candidates that pass the filter. \<^verbatim>\<open>_deb_sort\<close>
  returns a plan exactly when the plan holds, in the slot of each role, the last
  candidate in listing order classified to that role, nothing when there is none, and
  the logging loop can shorten every slot. A candidate that matches no role leaves the
  slots as they are, and the result of \<^verbatim>\<open>_deb_sort\<close>, value or exception, is the
  same with and without it.
\<close>

theorem classification_last_write_wins:
  "deb_sort_step out f =
     (case find (\<lambda>r. role_match r f) [HeadersCommon, HeadersArch, Modules, Image] of
        None \<Rightarrow> out
      | Some r \<Rightarrow> out[slot r := Some f])
   \<and> classify f = find (\<lambda>r. role_match r f) [HeadersCommon, HeadersArch, Modules, Image]
   \<and> fetch_deb_lst links arch = deb_sort (candidates arch links)
   \<and> (deb_sort fs = Inr plan \<longleftrightarrow>
        plan = map (\<lambda>r. last_opt (filter (\<lambda>c. classify c = Some r) fs))
                 [HeadersCommon, HeadersArch, Modules, Image]
        \<and> (\<forall>x\<in>set plan. \<exists>n. shorten_name x = Inr n))
   \<and> (classify f = None \<longrightarrow>
        deb_sort_step out f = out \<and> deb_sort (xs @ f # ys) = deb_sort (xs @ ys))"
proof -
  have a: "deb_sort_step out f = out" if "classify f = None"
    using that by (simp add: deb_sort_step_eq)
  have b: "classify f = find (\<lambda>r. role_match r f) [HeadersCommon, HeadersArch, Modules, Image]"
    by (simp only: classify_def roles_def)
  have c: "deb_sort fs = Inr plan \<longleftrightarrow>
        plan = map (\<lambda>r. last_opt (filter (\<lambda>c. classify c = Some r) fs))
                 [HeadersCommon, HeadersArch, Modules, Image]
        \<and> (\<forall>x\<in>set plan. \<exists>n. shorten_name x = Inr n)"
    using deb_slots_roles [of fs] unfolding roles_def
    by (auto simp only: deb_sort_Inr_iff)
  from a b c show ?thesis
    using deb_sort_step_classify [of out f] fetch_deb_lst_eq [of links arch]
      deb_sort_drop_unmatched [of f xs ys]
    by blast
qed

lemma sample_two_headers:
  "map (\<lambda>r. last_opt (filter (\<lambda>c. classify c = Some r)
      ([''linux-headers-6.2.1-060201-generic_1_amd64.deb'']
       @ ''linux-tools-6.2.1_amd64.deb''
       # [''linux-headers-6.2.1-060201_all.deb'',
          ''linux-headers-6.2.1-060201-generic_2_amd64.deb'',
          ''linux-modules-6.2.1-060201-generic_6.2.1_amd64.deb'',
          ''linux-image-unsigned-6.2.1-060201-generic_6.2.1_amd64.deb''])))
     [HeadersCommon, HeadersArch, Modules, Image]
   = [Some ''linux-headers-6.2.1-060201_all.deb'',
      Some ''linux-headers-6.2.1-060201-generic_2_amd64.deb'',
      Some ''linux-modules-6.2.1-060201-generic_6.2.1_amd64.deb'',
      Some ''linux-image-unsigned-6.2.1-060201-generic_6.2.1_amd64.deb'']"
  by code_simp

lemma sample_shorten_plan:
  "shorten_name (Some ''linux-headers-6.2.1-060201_all.deb'') = Inr ''Linux-Headers-v6.2.1 (all)''"
  "shorten_name (Some ''linux-headers-6.2.1-060201-generic_2_amd64.deb'') = Inr ''Linux-Headers-v6.2.1 (2)''"
  "shorten_name (Some ''linux-modules-6.2.1-060201-generic_6.2.1_amd64.deb'') = Inr ''Linux-Modules-v6.2.1 (6)''"
  "shorten_name (Some ''linux-image-unsigned-6.2.1-060201-generic_6.2.1_amd64.deb'') = Inr ''Linux-Image-v6.2.1 (6)''"
  by code_simp+

theorem classification_last_write_wins_witness:
  "classify ''linux-tools-6.2.1_amd64.deb'' = None
   \<and> deb_sort_step [None, None, None, None] ''linux-tools-6.2.1_amd64.deb''
       = [None, None, None, None]
   \<and> deb_sort ([''linux-headers-6.2.1-060201-generic_1_amd64.deb'']
                 @ ''linux-tools-6.2.1_amd64.deb''
                 # [''linux-headers-6.2.1-060201_all.deb'',
                    ''linux-headers-6.2.1-060201-generic_2_amd64.deb'',
                    ''linux-modules-6.2.1-060201-generic_6.2.1_amd64.deb'',
                    ''linux-image-unsigned-6.2.1-060201-generic_6.2.1_amd64.deb''])
       = Inr [Some ''linux-headers-6.2.1-060201_all.deb'',
              Some ''linux-headers-6.2.1-060201-generic_2_amd64.deb'',
              Some ''linux-modules-6.2.1-060201-generic_6.2.1_amd64.deb'',
              Some ''linux-image-unsigned-6.2.1-060201-generic_6.2.1_amd64.deb'']
   \<and> deb_sort ([''linux-headers-6.2.1-060201-generic_1_amd64.deb'']
                 @ [''linux-headers-6.2.1-060201_all.deb'',
                    ''linux-headers-6.2.1-060201-generic_2_amd64.deb'',
                    ''linux-modules-6.2.1-060201-generic_6.2.1_amd64.deb'',
                    ''linux-image-unsigned-6.2.1-060201-generic_6.2.1_amd64.deb''])
       = Inr [Some ''linux-headers-6.2.1-060201_all.deb'',
              Some ''linux-headers-6.2.1-060201-generic_2_amd64.deb'',
              Some ''linux-modules-6.2.1-060201-generic_6.2.1_amd64.deb'',
              Some ''linux-image-unsigned-6.2.1-060201-generic_6.2.1_amd64.deb'']"
proof -
  let ?t = "''linux-tools-6.2.1_amd64.deb''"
  let ?xs = "[''linux-headers-6.2.1-060201-generic_1_amd64.deb'']"
  let ?ys = "[''linux-headers-6.2.1-060201_all.deb'',
              ''linux-headers-6.2.1-060201-generic_2_amd64.deb'',
              ''linux-modules-6.2.1-060201-generic_6.2.1_amd64.deb'',
              ''linux-image-unsigned-6.2.1-060201-generic_6.2.1_amd64.deb'']"
  let ?plan = "[Some ''linux-headers-6.2.1-060201_all.deb'',
                Some ''linux-headers-6.2.1-060201-generic_2_amd64.deb'',
                Some ''linux-modules-6.2.1-060201-generic_6.2.1_amd64.deb'',
                Some ''linux-image-unsigned-6.2.1-060201-generic_6.2.1_amd64.deb'']"
  have h: "classify ?t = None" by code_simp
  have s: "\<forall>x\<in>set ?plan. \<exists>n. shorten_name x = Inr n"
    using sample_shorten_plan by simp
  note T = classification_last_write_wins
    [of "[None, None, None, None]" ?t "[]" "''amd64''" "?xs @ ?t # ?ys" ?plan ?xs ?ys]
  note iff = T [THEN conjunct2, THEN conjunct2, THEN conjunct2, THEN conjunct1]
  note drop = T [THEN conjunct2, THEN conjunct2, THEN conjunct2, THEN conjunct2, THEN mp, OF h]
  have r1: "deb_sort (?xs @ ?t # ?ys) = Inr ?plan"
    by (rule iff [THEN iffD2]) (rule conjI [OF sample_two_headers [symmetric] s])
  from drop r1 have r2: "deb_sort (?xs @ ?ys) = Inr ?plan"
    by (simp only:)
  from h drop [THEN conjunct1] r1 r2 show ?thesis
    by (intro conjI)
qed

section \<open>An incomplete plan\<close>

lemma Upgrade_init_plan_error:
  "update (e_marker en) = Inr k \<Longrightarrow> fetch_deb_lst (e_links en) ''amd64'' = Inl e \<Longrightarrow>
   Upgrade_init en w = (Inl e, w)"
  by (simp add: Upgrade_init_def)

lemma main_error: "Upgrade_init en w = (Inl e, w') \<Longrightarrow> main en w = (Inl e, w')"
  by (simp add: main_def)

lemma sample_missing_modules:
  "deb_slots (candidates ''amd64''
      [''linux-headers-6.2.1-060201-generic_6.2.1_amd64.deb'',
       ''linux-headers-6.2.1-060201_all.deb'',
       ''linux-image-unsigned-6.2.1-060201-generic_6.2.1_amd64.deb''])
   = [Some ''linux-headers-6.2.1-060201_all.deb'',
      Some ''linux-headers-6.2.1-060201-generic_6.2.1_amd64.deb'',
      None,
      Some ''linux-image-unsigned-6.2.1-060201-generic_6.2.1_amd64.deb'']"
  by code_simp

text \<open>
  C1, as the code has it. The script has no completeness check and no
  IncompletePlanError. When version resolution has succeeded and a slot is still
  \<^verbatim>\<open>None\<close> after the classifying loop, the logging loop at the end of
  \<^verbatim>\<open>_deb_sort\<close> raises: AttributeError from \<^verbatim>\<open>_shorten_name(None)\<close>, or IndexError
  from an earlier slot whose name cannot be shortened. The exception leaves
  \<^verbatim>\<open>Upgrade.__init__\<close> and \<^verbatim>\<open>main\<close> with the world unchanged: no file removed,
  no download, no installer run. It names no role.
\<close>

theorem incomplete_plan_aborts:
  assumes "update (e_marker en) = Inr k"
    and "None \<in> set (deb_slots (candidates ''amd64'' (e_links en)))"
  shows "\<exists>e. (e = AttributeError \<or> e = IndexError)
            \<and> fetch_deb_lst (e_links en) ''amd64'' = Inl e
            \<and> Upgrade_init en w = (Inl e, w)
            \<and> main en w = (Inl e, w)"
proof -
  from deb_sort_incomplete [OF assms(2)] obtain e
    where e: "e = AttributeError \<or> e = IndexError"
      and d: "deb_sort (candidates ''amd64'' (e_links en)) = Inl e"
    by blast
  from d have f: "fetch_deb_lst (e_links en) ''amd64'' = Inl e"
    by (simp add: fetch_deb_lst_eq)
  have u: "Upgrade_init en w = (Inl e, w)"
    by (rule Upgrade_init_plan_error [OF assms(1) f])
  from e f u main_error [OF u] show ?thesis by blast
qed

theorem incomplete_plan_aborts_witness:
  "update (Some ''6.2.1'') = Inr \<lparr>major = ''6'', minor = ''2'', revision = ''1'',
       ver_lst = [''6'', ''2'', ''1''], ver_str = ''6.2.1''\<rparr>
   \<and> None \<in> set (deb_slots (candidates ''amd64''
        [''linux-headers-6.2.1-060201-generic_6.2.1_amd64.deb'',
         ''linux-headers-6.2.1-060201_all.deb'',
         ''linux-image-unsigned-6.2.1-060201-generic_6.2.1_amd64.deb'']))
   \<and> (\<exists>e. main \<lparr>e_marker = Some ''6.2.1'',
                 e_links = [''linux-headers-6.2.1-060201-generic_6.2.1_amd64.deb'',
                            ''linux-headers-6.2.1-060201_all.deb'',
                            ''linux-image-unsigned-6.2.1-060201-generic_6.2.1_amd64.deb''],
                 e_sudo_pass = Some ''secret'',
         e_http_get = serve_url, e_dpkg = dpkg_table []\<rparr> empty_world
           = (Inl e, empty_world))"
proof -
  let ?L = "[''linux-headers-6.2.1-060201-generic_6.2.1_amd64.deb'',
             ''linux-headers-6.2.1-060201_all.deb'',
             ''linux-image-unsigned-6.2.1-060201-generic_6.2.1_amd64.deb'']"
  let ?en = "\<lparr>e_marker = Some ''6.2.1'', e_links = ?L, e_sudo_pass = Some ''secret'',
         e_http_get = serve_url, e_dpkg = dpkg_table []\<rparr>"
  have u: "update (Some ''6.2.1'') = Inr \<lparr>major = ''6'', minor = ''2'', revision = ''1'',
       ver_lst = [''6'', ''2'', ''1''], ver_str = ''6.2.1''\<rparr>"
    by (simp add: update_Some py_strip_def py_isspace_def)
  have n: "None \<in> set (deb_slots (candidates ''amd64'' ?L))"
    by (simp add: sample_missing_modules)
  have u': "update (e_marker ?en) = Inr \<lparr>major = ''6'', minor = ''2'', revision = ''1'',
       ver_lst = [''6'', ''2'', ''1''], ver_str = ''6.2.1''\<rparr>"
    using u by simp
  have n': "None \<in> set (deb_slots (candidates ''amd64'' (e_links ?en)))"
    using n by simp
  from incomplete_plan_aborts [OF u' n', of empty_world] u n show ?thesis by blast
qed

text \<open>
  C1 as stated, on a listing without a modules package: the run ends with
  AttributeError, not with an error that names the missing role.
\<close>

theorem missing_modules_counterexample:
  "main \<lparr>e_marker = Some ''6.2.1'',
         e_links = [''linux-headers-6.2.1-060201-generic_6.2.1_amd64.deb'',
                    ''linux-headers-6.2.1-060201_all.deb'',
                    ''linux-image-unsigned-6.2.1-060201-generic_6.2.1_amd64.deb''],
         e_sudo_pass = Some ''secret'',
         e_http_get = serve_url, e_dpkg = dpkg_table []\<rparr> empty_world
   = (Inl AttributeError, empty_world)"
proof -
  let ?L = "[''linux-headers-6.2.1-060201-generic_6.2.1_amd64.deb'',
             ''linux-headers-6.2.1-060201_all.deb'',
             ''linux-image-unsigned-6.2.1-060201-generic_6.2.1_amd64.deb'']"
  have u: "update (Some ''6.2.1'') = Inr \<lparr>major = ''6'', minor = ''2'', revision = ''1'',
       ver_lst = [''6'', ''2'', ''1''], ver_str = ''6.2.1''\<rparr>"
    by (simp add: update_Some py_strip_def py_isspace_def)
  have f: "fetch_deb_lst ?L ''amd64'' = Inl AttributeError"
    by code_simp
  show ?thesis
    by (simp add: main_def Upgrade_init_def u f)
qed

section \<open>Plans of permuted listings\<close>

lemma role_in_roles: "r \<in> set roles"
  by (cases r) (simp_all add: roles_def)

lemma slot_surj: "i < 4 \<Longrightarrow> \<exists>r. i = slot r"
proof -
  assume "i < 4"
  then have "i = 0 \<or> i = 1 \<or> i = 2 \<or> i = 3" by linarith
  then show ?thesis
    using slot.simps by metis
qed

lemma set_candidates:
  "set (candidates arch links) =
     {links ! i | i. i < length links \<and> passes arch links i (links ! i)}"
  by (auto simp: candidates_nth)

lemma candidate_in_links: "c \<in> set (candidates arch links) \<Longrightarrow> c \<in> set links"
  by (auto simp: set_candidates)

lemma candidate_not_never:
  "c \<in> set (candidates arch links) \<Longrightarrow> \<not> never_candidate arch c"
  by (auto simp: set_candidates passes_def never_candidate_def)

lemma direct_candidate:
  assumes "c \<in> set links" "py_in arch c" "\<not> py_in ''BUILD.LOG'' c" "\<not> py_in ''lowlatency'' c"
  shows "c \<in> set (candidates arch links)"
proof -
  from assms(1) obtain i where "i < length links" "links ! i = c"
    by (auto simp: in_set_conv_nth)
  with assms(2-4) show ?thesis
    by (auto simp: set_candidates passes_def)
qed

lemma spec_included_passes:
  "spec_included arch links i \<Longrightarrow> passes arch links i (links ! i)"
  by (auto simp: spec_included_def passes_def prev_link_def)

lemma entry_spec_included_candidate:
  "entry_spec_included arch links e \<Longrightarrow> e \<in> set (candidates arch links)"
  by (auto simp: entry_spec_included_def set_candidates dest: spec_included_passes)

lemma valid_listing_role:
  assumes "valid_listing arch links ents" "c \<in> set links" "\<not> never_candidate arch c"
    "classify c = Some r"
  shows "c = ents ! slot r"
proof -
  from assms have "c \<in> set ents" by (auto simp: valid_listing_def)
  moreover from assms(1) have len: "length ents = 4" by (simp add: valid_listing_def)
  ultimately obtain i where i: "i < 4" "ents ! i = c" by (auto simp: in_set_conv_nth)
  from slot_surj [OF i(1)] obtain r' where r': "i = slot r'" by blast
  from assms(1) have "classify (ents ! slot r') = Some r'"
    using role_in_roles [of r'] by (auto simp: valid_listing_def)
  with i r' assms(4) have "r' = r" by simp
  with i r' show ?thesis by simp
qed

lemma last_opt_all_equal:
  assumes "\<And>c. c \<in> set xs \<Longrightarrow> c = e" "xs \<noteq> []"
  shows "last_opt xs = Some e"
  using assms by (simp add: last_opt_def)

lemma valid_plan_slots:
  assumes v: "valid_listing arch links ents"
    and p: "set links' = set links"
    and inc: "ents ! slot HeadersCommon \<in> set (candidates arch links')"
  shows "deb_slots (candidates arch links') = map Some ents"
proof (rule nth_equalityI)
  from v show "length (deb_slots (candidates arch links')) = length (map Some ents)"
    by (simp add: length_deb_slots valid_listing_def)
next
  fix i assume "i < length (deb_slots (candidates arch links'))"
  then have i4: "i < 4" by (simp add: length_deb_slots)
  from slot_surj [OF i4] obtain r where r: "i = slot r" by blast
  let ?xs = "filter (\<lambda>c. classify c = Some r) (candidates arch links')"
  have eq: "c = ents ! slot r" if "c \<in> set ?xs" for c
  proof -
    from that have c: "c \<in> set (candidates arch links')" "classify c = Some r" by auto
    from c(1) have "c \<in> set links" using candidate_in_links p by blast
    with v c show ?thesis
      using candidate_not_never valid_listing_role by blast
  qed
  have vr: "ents ! slot r \<in> set links" "classify (ents ! slot r) = Some r"
    "\<not> py_in ''lowlatency'' (ents ! slot r)"
    using v role_in_roles [of r] by (auto simp: valid_listing_def)
  have "ents ! slot r \<in> set (candidates arch links')"
  proof (cases "r = HeadersCommon")
    case True
    with inc show ?thesis by simp
  next
    case False
    with v role_in_roles [of r]
    have "py_in arch (ents ! slot r)" "\<not> py_in ''BUILD.LOG'' (ents ! slot r)"
      by (auto simp: valid_listing_def)
    with vr p show ?thesis by (intro direct_candidate) auto
  qed
  with vr(2) have ne: "?xs \<noteq> []" by (auto simp: filter_empty_conv)
  have "deb_slots (candidates arch links') ! slot r = Some (ents ! slot r)"
    using last_opt_all_equal [of ?xs "ents ! slot r"] eq ne by (simp add: deb_slots_nth)
  moreover from v i4 have "i < length ents" by (simp add: valid_listing_def)
  ultimately show "deb_slots (candidates arch links') ! i = map Some ents ! i"
    using r by simp
qed

text \<open>
  C4, as the code has it. Take a valid listing: one entry per role, every other link
  excluded by the filter wherever it stands or matching no role. Let the four entries be
  names that \<^verbatim>\<open>_shorten_name\<close> accepts. Take any permutation of the listing in which
  the architecture-independent headers entry stands where the inclusion test of the
  specification holds for it: it directly follows a link that contains the architecture
  token, or it contains the token itself and no build-log marker. Then
  \<^verbatim>\<open>fetch_deb_lst\<close> returns the complete plan, the four entries in canonical order:
  the three architecture-specific entries pass the filter wherever they stand, and the
  role of an entry does not depend on its position.
\<close>

theorem permuted_listing_plan:
  assumes "valid_listing arch links ents"
    and "mset links' = mset links"
    and "entry_spec_included arch links' (ents ! slot HeadersCommon)"
    and "\<forall>e\<in>set ents. \<exists>n. shorten_name (Some e) = Inr n"
  shows "fetch_deb_lst links' arch = Inr (map Some ents)"
proof -
  from assms(2) have p: "set links' = set links" by (rule mset_eq_setD)
  have "deb_slots (candidates arch links') = map Some ents"
    by (rule valid_plan_slots [OF assms(1) p entry_spec_included_candidate [OF assms(3)]])
  with assms(4) show ?thesis
    by (auto simp: fetch_deb_lst_eq deb_sort_Inr_iff)
qed

lemma sample_shorten:
  "shorten_name (Some ''linux-headers-6.2.1-060201_all.deb'') = Inr ''Linux-Headers-v6.2.1 (all)''"
  "shorten_name (Some ''linux-headers-6.2.1-060201-generic_6.2.1_amd64.deb'') = Inr ''Linux-Headers-v6.2.1 (6)''"
  "shorten_name (Some ''linux-modules-6.2.1-060201-generic_6.2.1_amd64.deb'') = Inr ''Linux-Modules-v6.2.1 (6)''"
  "shorten_name (Some ''linux-image-unsigned-6.2.1-060201-generic_6.2.1_amd64.deb'') = Inr ''Linux-Image-v6.2.1 (6)''"
  by code_simp+

theorem permuted_listing_plan_witness:
  "valid_listing ''amd64''
     [''linux-headers-6.2.1-060201-generic_6.2.1_amd64.deb'',
      ''linux-headers-6.2.1-060201_all.deb'',
      ''linux-modules-6.2.1-060201-generic_6.2.1_amd64.deb'',
      ''linux-image-unsigned-6.2.1-060201-generic_6.2.1_amd64.deb'',
      ''linux-headers-6.2.1-060201-generic_6.2.1_arm64.deb'',
      ''CHECKSUMS'']
     [''linux-headers-6.2.1-060201_all.deb'',
      ''linux-headers-6.2.1-060201-generic_6.2.1_amd64.deb'',
      ''linux-modules-6.2.1-060201-generic_6.2.1_amd64.deb'',
      ''linux-image-unsigned-6.2.1-060201-generic_6.2.1_amd64.deb'']
   \<and> mset [''CHECKSUMS'',
            ''linux-headers-6.2.1-060201-generic_6.2.1_arm64.deb'',
            ''linux-modules-6.2.1-060201-generic_6.2.1_amd64.deb'',
            ''linux-headers-6.2.1-060201_all.deb'',
            ''linux-image-unsigned-6.2.1-060201-generic_6.2.1_amd64.deb'',
            ''linux-headers-6.2.1-060201-generic_6.2.1_amd64.deb'']
       = mset [''linux-headers-6.2.1-060201-generic_6.2.1_amd64.deb'',
               ''linux-headers-6.2.1-060201_all.deb'',
               ''linux-modules-6.2.1-060201-generic_6.2.1_amd64.deb'',
               ''linux-image-unsigned-6.2.1-060201-generic_6.2.1_amd64.deb'',
               ''linux-headers-6.2.1-060201-generic_6.2.1_arm64.deb'',
               ''CHECKSUMS'']
   \<and> entry_spec_included ''amd64''
        [''CHECKSUMS'',
         ''linux-headers-6.2.1-060201-generic_6.2.1_arm64.deb'',
         ''linux-modules-6.2.1-060201-generic_6.2.1_amd64.deb'',
         ''linux-headers-6.2.1-060201_all.deb'',
         ''linux-image-unsigned-6.2.1-060201-generic_6.2.1_amd64.deb'',
         ''linux-headers-6.2.1-060201-generic_6.2.1_amd64.deb'']
        ''linux-headers-6.2.1-060201_all.deb''
   \<and> fetch_deb_lst
        [''CHECKSUMS'',
         ''linux-headers-6.2.1-060201-generic_6.2.1_arm64.deb'',
         ''linux-modules-6.2.1-060201-generic_6.2.1_amd64.deb'',
         ''linux-headers-6.2.1-060201_all.deb'',
         ''linux-image-unsigned-6.2.1-060201-generic_6.2.1_amd64.deb'',
         ''linux-headers-6.2.1-060201-generic_6.2.1_amd64.deb''] ''amd64''
       = Inr [Some ''linux-headers-6.2.1-060201_all.deb'',
              Some ''linux-headers-6.2.1-060201-generic_6.2.1_amd64.deb'',
              Some ''linux-modules-6.2.1-060201-generic_6.2.1_amd64.deb'',
              Some ''linux-image-unsigned-6.2.1-060201-generic_6.2.1_amd64.deb'']"
proof -
  let ?hg = "''linux-headers-6.2.1-060201-generic_6.2.1_amd64.deb''"
  let ?ha = "''linux-headers-6.2.1-060201_all.deb''"
  let ?mo = "''linux-modules-6.2.1-060201-generic_6.2.1_amd64.deb''"
  let ?im = "''linux-image-unsigned-6.2.1-060201-generic_6.2.1_amd64.deb''"
  let ?ar = "''linux-headers-6.2.1-060201-generic_6.2.1_arm64.deb''"
  let ?L = "[?hg, ?ha, ?mo, ?im, ?ar, ''CHECKSUMS'']"
  let ?L1 = "[''CHECKSUMS'', ?ar, ?mo, ?ha, ?im, ?hg]"
  let ?E = "[?ha, ?hg, ?mo, ?im]"
  have v: "valid_listing ''amd64'' ?L ?E" by code_simp
  have m1: "mset ?L1 = mset ?L" by simp
  have s: "\<forall>e\<in>set ?E. \<exists>n. shorten_name (Some e) = Inr n"
    using sample_shorten by simp
  have e0: "?E ! slot HeadersCommon = ?ha" by simp
  have i1: "entry_spec_included ''amd64'' ?L1 ?ha" by code_simp
  from i1 e0 have i1': "entry_spec_included ''amd64'' ?L1 (?E ! slot HeadersCommon)"
    by (simp only:)
  from permuted_listing_plan [OF v m1 i1' s]
  have r1: "fetch_deb_lst ?L1 ''amd64'' = Inr (map Some ?E)" .
  from v m1 i1 r1 show ?thesis by simp
qed

text \<open>
  C4 as stated, on a valid listing in its original order. There is one entry per role
  and no other link, the architecture-independent headers entry directly follows a link
  with the architecture token, and classification fills all four slots. Yet
  \<^verbatim>\<open>fetch_deb_lst\<close> returns no plan: the logging loop of \<^verbatim>\<open>_deb_sort\<close> raises
  IndexError on \<^verbatim>\<open>linux-headers_all.deb\<close>, a name with fewer than three pieces
  between hyphens.
\<close>

theorem unshortenable_entry_counterexample:
  "valid_listing ''amd64''
     [''linux-headers-6.2.1-060201-generic_6.2.1_amd64.deb'',
      ''linux-headers_all.deb'',
      ''linux-modules-6.2.1-060201-generic_6.2.1_amd64.deb'',
      ''linux-image-unsigned-6.2.1-060201-generic_6.2.1_amd64.deb'']
     [''linux-headers_all.deb'',
      ''linux-headers-6.2.1-060201-generic_6.2.1_amd64.deb'',
      ''linux-modules-6.2.1-060201-generic_6.2.1_amd64.deb'',
      ''linux-image-unsigned-6.2.1-060201-generic_6.2.1_amd64.deb'']
   \<and> entry_spec_included ''amd64''
        [''linux-headers-6.2.1-060201-generic_6.2.1_amd64.deb'',
         ''linux-headers_all.deb'',
         ''linux-modules-6.2.1-060201-generic_6.2.1_amd64.deb'',
         ''linux-image-unsigned-6.2.1-060201-generic_6.2.1_amd64.deb'']
        ''linux-headers_all.deb''
   \<and> deb_slots (candidates ''amd64''
        [''linux-headers-6.2.1-060201-generic_6.2.1_amd64.deb'',
         ''linux-headers_all.deb'',
         ''linux-modules-6.2.1-060201-generic_6.2.1_amd64.deb'',
         ''linux-image-unsigned-6.2.1-060201-generic_6.2.1_amd64.deb''])
       = [Some ''linux-headers_all.deb'',
          Some ''linux-headers-6.2.1-060201-generic_6.2.1_amd64.deb'',
          Some ''linux-modules-6.2.1-060201-generic_6.2.1_amd64.deb'',
          Some ''linux-image-unsigned-6.2.1-060201-generic_6.2.1_amd64.deb'']
   \<and> fetch_deb_lst
        [''linux-headers-6.2.1-060201-generic_6.2.1_amd64.deb'',
         ''linux-headers_all.deb'',
         ''linux-modules-6.2.1-060201-generic_6.2.1_amd64.deb'',
         ''linux-image-unsigned-6.2.1-060201-generic_6.2.1_amd64.deb''] ''amd64''
       = Inl IndexError"
  by code_simp

section \<open>Fetching an artifact\<close>

lemma py_split_dot_slash: "py_split CHR ''/'' (''./'' @ s) = ''.'' # py_split CHR ''/'' s"
  by simp

lemma resolve_dot_slash:
  assumes "resolve_path name = Entry e"
  shows "resolve_path (''./'' @ name) = Entry e"
proof -
  have ne: "py_split CHR ''/'' name \<noteq> []" by (rule py_split_not_Nil)
  have nul: "char_of (0 :: nat) \<noteq> CHR ''.''" "char_of (0 :: nat) \<noteq> CHR ''/''"
    by (simp_all add: char_of_def)
  from assms show ?thesis
    unfolding resolve_path_def py_split_dot_slash Let_def
    using ne nul by (auto split: if_splits)
qed

lemma map_of_filter_other: "map_of (filter (\<lambda>(n, b). n \<noteq> name) hs) name = None"
  by (induction hs) auto

lemma filter_map_buffers:
  "filter (\<lambda>(n, b). n \<noteq> name) (map (\<lambda>(n, buf). if n = name then (n, buf @ bytes) else (n, buf)) hs)
   = filter (\<lambda>(n, b). n \<noteq> name) hs"
  by (induction hs) auto

lemma write_pkg_data_Entry:
  assumes "resolve_path name = Entry e"
  shows "write_pkg_data (name, resp) w =
     (Inr (), w\<lparr>w_files := (w_files w)(e \<mapsto> resp),
               w_handles := filter (\<lambda>(n, b). n \<noteq> e) (w_handles w),
               w_trace := w_trace w @ [Opened e, Wrote e resp, Closed e]\<rparr>)"
  using assms
  by (simp add: write_pkg_data_def fs_close_def fs_write_def fs_open_wb_def
      map_of_filter_other filter_map_buffers)


lemma write_pkg_data_Inl:
  "write_pkg_data (name, resp) w = (Inl x, w') \<Longrightarrow> w' = w"
  by (auto simp: write_pkg_data_def fs_open_wb_def split: target.splits if_splits)

lemma remove_if_exists:
  "(if path_exists p w then fs_remove p w else Inr w) =
     (case resolve_path p of
        Entry e \<Rightarrow> Inr (cleared e w)
      | Directory \<Rightarrow> Inl IsADirectoryError
      | _ \<Rightarrow> Inr w)"
  by (simp add: path_exists_def fs_remove_def cleared_def split: target.splits)

lemma get_deb_shorten_error:
  "shorten_name deb = Inl x \<Longrightarrow> get_deb en self deb w = (Inl x, w)"
  by (simp add: get_deb_def)

lemma get_deb_shorten_ok_aux:
  assumes "shorten_name (Some name) = Inr n"
  shows "get_deb en self (Some name) w =
     (case (if path_exists (''./'' @ name) w then fs_remove (''./'' @ name) w else Inr w) of
        Inl x \<Rightarrow> (Inl x, w)
      | Inr w1 \<Rightarrow>
          (case e_http_get en (artifact_url self name) of
             Inl x \<Rightarrow> (Inl x, w1\<lparr>w_trace := w_trace w1 @ [Requested (artifact_url self name)]\<rparr>)
           | Inr b \<Rightarrow> write_pkg_data (name, b)
                        (w1\<lparr>w_trace := w_trace w1 @ [Requested (artifact_url self name)]\<rparr>)))"
  using assms
  by (simp add: get_deb_def get_pkg_data_def file_exists_def delete_file_def bind_res_def
      artifact_url_def Let_def split: sum.splits)

lemma get_deb_shorten_ok:
  assumes "shorten_name (Some name) = Inr n"
  shows "get_deb en self (Some name) w =
     (case (case resolve_path (''./'' @ name) of
              Entry e \<Rightarrow> Inr (cleared e w)
            | Directory \<Rightarrow> Inl IsADirectoryError
            | _ \<Rightarrow> Inr w) of
        Inl x \<Rightarrow> (Inl x, w)
      | Inr w1 \<Rightarrow>
          (case e_http_get en (artifact_url self name) of
             Inl x \<Rightarrow> (Inl x, w1\<lparr>w_trace := w_trace w1 @ [Requested (artifact_url self name)]\<rparr>)
           | Inr b \<Rightarrow> write_pkg_data (name, b)
                        (w1\<lparr>w_trace := w_trace w1 @ [Requested (artifact_url self name)]\<rparr>)))"
  unfolding get_deb_shorten_ok_aux [OF assms] remove_if_exists ..

lemma get_deb_Inr:
  assumes "shorten_name (Some name) = Inr n" "resolve_path name = Entry e"
    "e_http_get en (artifact_url self name) = Inr b"
  shows "get_deb en self (Some name) w = (Inr (), fetched (artifact_url self name) e b w)"
  using assms resolve_dot_slash [OF assms(2)]
  by (simp add: get_deb_shorten_ok [OF assms(1)] write_pkg_data_Entry
      cleared_def fetched_def)


lemma write_pkg_data_not_Entry:
  "\<forall>e. resolve_path name \<noteq> Entry e \<Longrightarrow> \<exists>x. write_pkg_data (name, b) w = (Inl x, w)"
  by (cases "resolve_path name") (simp_all add: write_pkg_data_def fs_open_wb_def)

lemma get_deb_trace:
  assumes "get_deb en self (Some name) w = (r, w')"
  shows "\<exists>tr. w_trace w' = w_trace w @ tr
     \<and> (\<forall>nm rc. Installed nm rc \<notin> set tr)
     \<and> (\<forall>e0. resolve_path (''./'' @ name) = Entry e0 \<and> w_files w e0 \<noteq> None
             \<and> Requested (artifact_url self name) \<in> set tr
           \<longrightarrow> (\<exists>post. tr = Removed e0 # Requested (artifact_url self name) # post))"
proof (cases "shorten_name (Some name)")
  case (Inl x)
  with assms show ?thesis by (simp add: get_deb_shorten_error)
next
  case (Inr n)
  show ?thesis
  proof (cases "\<exists>e b. resolve_path name = Entry e \<and> e_http_get en (artifact_url self name) = Inr b")
    case True
    then obtain e b where e: "resolve_path name = Entry e"
      and b: "e_http_get en (artifact_url self name) = Inr b"
      by blast
    from assms get_deb_Inr [OF Inr e b, of w] resolve_dot_slash [OF e] show ?thesis
      by (auto simp: fetched_def)
  next
    case False
    define p where "p = ''./'' @ name"
    define w1 where "w1 = (case resolve_path p of Entry e \<Rightarrow> cleared e w | _ \<Rightarrow> w)"
    define w2 where "w2 = w1\<lparr>w_trace := w_trace w1 @ [Requested (artifact_url self name)]\<rparr>"
    define pre where "pre = (case resolve_path p of
           Entry e \<Rightarrow> if w_files w e \<noteq> None then [Removed e] else []
         | _ \<Rightarrow> [])"
    note g = get_deb_shorten_ok [OF Inr, of en self w, folded p_def]
    have tr1: "w_trace w1 = w_trace w @ pre"
      by (cases "resolve_path p") (simp_all add: w1_def pre_def cleared_def)
    have dir: "get_deb en self (Some name) w = (Inl IsADirectoryError, w)"
      if "resolve_path p = Directory"
      unfolding g that by simp
    have other: "get_deb en self (Some name) w =
        (case e_http_get en (artifact_url self name) of
           Inl x \<Rightarrow> (Inl x, w2)
         | Inr b \<Rightarrow> write_pkg_data (name, b) w2)"
      if "resolve_path p \<noteq> Directory"
      using that unfolding g w2_def w1_def
      by (cases "resolve_path p"; cases "e_http_get en (artifact_url self name)") simp_all
    have stop: "\<exists>x. get_deb en self (Some name) w = (Inl x, w2)"
      if nd: "resolve_path p \<noteq> Directory"
    proof (cases "e_http_get en (artifact_url self name)")
      case (Inl x)
      then show ?thesis by (simp add: other [OF nd])
    next
      case b: (Inr b)
      with False have "\<forall>e. resolve_path name \<noteq> Entry e" by simp
      from write_pkg_data_not_Entry [OF this, of b w2] b show ?thesis
        by (simp add: other [OF nd])
    qed
    have goal: "\<exists>tr. w_trace w' = w_trace w @ tr
       \<and> (\<forall>nm rc. Installed nm rc \<notin> set tr)
       \<and> (\<forall>e0. resolve_path p = Entry e0 \<and> w_files w e0 \<noteq> None
             \<and> Requested (artifact_url self name) \<in> set tr
           \<longrightarrow> (\<exists>post. tr = Removed e0 # Requested (artifact_url self name) # post))"
    proof (cases "resolve_path p = Directory")
      case True
      with assms dir have "w' = w" by simp
      with True show ?thesis by simp
    next
      case nd: False
      from stop [OF nd] assms have w': "w' = w2" by auto
      have t: "w_trace w' = w_trace w @ (pre @ [Requested (artifact_url self name)])"
        by (simp add: w' w2_def tr1)
      have i: "\<forall>nm rc. Installed nm rc \<notin> set (pre @ [Requested (artifact_url self name)])"
        by (cases "resolve_path p") (simp_all add: pre_def)
      have r: "\<exists>post. pre @ [Requested (artifact_url self name)]
                 = Removed e0 # Requested (artifact_url self name) # post"
        if "resolve_path p = Entry e0" "w_files w e0 \<noteq> None" for e0
        using that by (simp add: pre_def)
      from t i r show ?thesis by blast
    qed
    then show ?thesis unfolding p_def .
  qed
qed


lemma sample_resolve:
  "resolve_path ''linux-headers-6.2.1-060201_all.deb'' = Entry ''linux-headers-6.2.1-060201_all.deb''"
  "resolve_path ''linux-headers-6.2.1-060201-generic_6.2.1_amd64.deb'' = Entry ''linux-headers-6.2.1-060201-generic_6.2.1_amd64.deb''"
  "resolve_path ''linux-modules-6.2.1-060201-generic_6.2.1_amd64.deb'' = Entry ''linux-modules-6.2.1-060201-generic_6.2.1_amd64.deb''"
  "resolve_path ''linux-image-unsigned-6.2.1-060201-generic_6.2.1_amd64.deb'' = Entry ''linux-image-unsigned-6.2.1-060201-generic_6.2.1_amd64.deb''"
  by code_simp+


text \<open>On a name with a directory part the request is made, \<^verbatim>\<open>open\<close> raises, and
  no file is written.\<close>

lemma sample_fetch_prefixed:
  "fst (get_deb (sample_env [] []) (sample_upgrade [])
          (Some ''amd64/linux-headers-6.2.1-060201_all.deb'') empty_world)
     = Inl FileNotFoundError
   \<and> w_trace (snd (get_deb (sample_env [] []) (sample_upgrade [])
          (Some ''amd64/linux-headers-6.2.1-060201_all.deb'') empty_world))
     = [Requested ''https://kernel.ubuntu.com/~kernel-ppa/mainline/v6.2.1/amd64/linux-headers-6.2.1-060201_all.deb'']
   \<and> w_files (snd (get_deb (sample_env [] []) (sample_upgrade [])
          (Some ''amd64/linux-headers-6.2.1-060201_all.deb'') empty_world))
        ''linux-headers-6.2.1-060201_all.deb'' = None
   \<and> w_handles (snd (get_deb (sample_env [] []) (sample_upgrade [])
          (Some ''amd64/linux-headers-6.2.1-060201_all.deb'') empty_world)) = []"
  by code_simp

section \<open>The installation loop\<close>

lemma priv_install_deb_Inr_iff:
  "priv_install_deb en name w = (Inr rc, w') \<longleftrightarrow>
     e_dpkg en w name = Inr rc \<and> e_sudo_pass en \<noteq> None
     \<and> (\<exists>n. shorten_name (Some name) = Inr n) \<and> w' = installed name rc w"
  by (cases "e_dpkg en w name"; cases "e_sudo_pass en"; cases "shorten_name (Some name)")
    (auto simp: priv_install_deb_def installed_def bind_res_def Let_def)

lemma install_deb_Inr_iff:
  "install_deb en (Some name) self w = (Inr self1, w') \<longleftrightarrow>
     (\<exists>rc n. e_dpkg en w name = Inr rc \<and> e_sudo_pass en \<noteq> None
        \<and> shorten_name (Some name) = Inr n
        \<and> rc_check rc (Some name) self = Inr self1 \<and> w' = installed name rc w)"
proof (cases "shorten_name (Some name)")
  case (Inl x)
  then show ?thesis by (simp add: install_deb_def)
next
  case (Inr n)
  obtain r w1 where p: "priv_install_deb en name w = (r, w1)"
    by (cases "priv_install_deb en name w")
  show ?thesis
  proof (cases r)
    case (Inl x)
    with p Inr have l: "install_deb en (Some name) self w = (Inl x, w1)"
      by (simp add: install_deb_def)
    have "\<not> (\<exists>rc. e_dpkg en w name = Inr rc \<and> e_sudo_pass en \<noteq> None)"
    proof
      assume "\<exists>rc. e_dpkg en w name = Inr rc \<and> e_sudo_pass en \<noteq> None"
      then obtain rc where "e_dpkg en w name = Inr rc" "e_sudo_pass en \<noteq> None" by blast
      with Inr have "priv_install_deb en name w = (Inr rc, installed name rc w)"
        by (simp add: priv_install_deb_Inr_iff)
      with p Inl show False by simp
    qed
    with l show ?thesis by auto
  next
    case rc: (Inr rc)
    with p have q: "e_dpkg en w name = Inr rc" "e_sudo_pass en \<noteq> None" "w1 = installed name rc w"
      by (simp_all add: priv_install_deb_Inr_iff)
    from p rc Inr have l: "install_deb en (Some name) self w = (rc_check rc (Some name) self, w1)"
      by (simp add: install_deb_def)
    from l q Inr show ?thesis by auto
  qed
qed

lemma py_index_first:
  "py_index xs x = Inr i \<longleftrightarrow> i < length xs \<and> xs ! i = x \<and> (\<forall>j<i. xs ! j \<noteq> x)"
proof (induction xs arbitrary: i)
  case Nil
  show ?case by simp
next
  case (Cons y ys)
  show ?case
  proof (cases "y = x")
    case True
    then show ?thesis by (cases i) auto
  next
    case False
    show ?thesis
    proof (cases i)
      case 0
      with False show ?thesis by (simp add: bind_res_Inr)
    next
      case (Suc k)
      have "(\<forall>j<Suc k. (y # ys) ! j \<noteq> x) \<longleftrightarrow> (\<forall>j<k. ys ! j \<noteq> x)"
        using False by (auto simp: less_Suc_eq_0_disj)
      with False Suc Cons.IH [of k] show ?thesis
        by (simp add: bind_res_Inr)
    qed
  qed
qed

lemma py_index_member: "x \<in> set xs \<Longrightarrow> \<exists>i. py_index xs x = Inr i"
  by (induction xs) (auto simp: bind_res_def)

lemma py_index_append_distinct:
  "x \<notin> set pre \<Longrightarrow> py_index (pre @ x # post) x = Inr (length pre)"
  by (induction pre) (auto simp: bind_res_def)

lemma rc_check_eq:
  assumes "shorten_name deb = Inr n" "py_index (packages self) deb = Inr i"
    "i < length (return_codes self)"
  shows "rc_check rc deb self =
     Inr (if rc = 0 then self\<lparr>return_codes := (return_codes self)[i := True]\<rparr> else self)"
  using assms by (simp add: rc_check_def bind_res_def py_setitem_def)

lemma rc_check_Inr:
  assumes "rc_check rc deb self = Inr self1"
  shows "(rc \<noteq> 0 \<and> self1 = self)
       \<or> (rc = 0 \<and> (\<exists>i. py_index (packages self) deb = Inr i \<and> i < length (return_codes self)
                      \<and> self1 = self\<lparr>return_codes := (return_codes self)[i := True]\<rparr>))"
proof (cases "rc = 0")
  case False
  with assms show ?thesis by (simp add: rc_check_def)
next
  case True
  with assms obtain n where n: "shorten_name deb = Inr n"
    by (cases "shorten_name deb") (simp_all add: rc_check_def bind_res_def)
  from assms True n obtain i where i: "py_index (packages self) deb = Inr i"
    by (cases "py_index (packages self) deb") (simp_all add: rc_check_def bind_res_def)
  from assms True n i have lt: "i < length (return_codes self)"
    by (cases "i < length (return_codes self)") (simp_all add: rc_check_def bind_res_def py_setitem_def)
  from assms rc_check_eq [OF n i lt, of rc] True i lt show ?thesis by simp
qed

lemma install_loop_Cons_Inr:
  assumes "install_loop en (d # debs) self w = (Inr self', w')"
  obtains name w1 self1 w2 where "d = Some name"
    and "get_deb en self (Some name) w = (Inr (), w1)"
    and "install_deb en (Some name) self w1 = (Inr self1, w2)"
    and "install_loop en debs self1 w2 = (Inr self', w')"
proof -
  obtain r1 w1 where g: "get_deb en self d w = (r1, w1)"
    by (cases "get_deb en self d w")
  obtain r2 w2 where i: "install_deb en d self w1 = (r2, w2)"
    by (cases "install_deb en d self w1")
  from assms g have r1: "r1 = Inr ()" by (cases r1) simp_all
  from assms g r1 i obtain self1 where r2: "r2 = Inr self1" by (cases r2) simp_all
  from assms g r1 i r2 have l: "install_loop en debs self1 w2 = (Inr self', w')" by simp
  from g r1 obtain name where d: "d = Some name"
    by (cases d) (simp_all add: get_deb_def shorten_name_None)
  from that [OF d] g r1 i r2 l d show thesis by simp
qed

lemma after_slots_self:
  "URL self' = URL self \<Longrightarrow> kernel_version self' = kernel_version self \<Longrightarrow>
   after_slots self' slots w = after_slots self slots w"
  by (induction slots arbitrary: w) (auto simp: artifact_url_def)

lemma answered_self:
  "URL self' = URL self \<Longrightarrow> kernel_version self' = kernel_version self \<Longrightarrow>
   answered en self' slots w = answered en self slots w"
  by (induction slots arbitrary: w) (auto simp: artifact_url_def)

lemma install_loop_answered:
  assumes "packages self = map Some (pre @ map fst slots)"
    and "distinct (pre @ map fst slots)"
    and "\<forall>name\<in>set (map fst slots). \<exists>n. shorten_name (Some name) = Inr n"
    and "return_codes self = rcs_pre @ replicate (length slots) False"
    and "length rcs_pre = length pre"
    and "e_sudo_pass en \<noteq> None"
    and "answered en self slots w"
  shows "install_loop en (map Some (map fst slots)) self w =
     (Inr (self\<lparr>return_codes := rcs_pre @ map (\<lambda>(name, e, b, rc). rc = 0) slots\<rparr>),
      after_slots self slots w)"
  using assms
proof (induction slots arbitrary: pre rcs_pre self w)
  case Nil
  then show ?case by simp
next
  case (Cons s slots)
  obtain name e b rc where s: "s = (name, e, b, rc)" by (cases s)
  from Cons.prems(3) obtain n where n: "shorten_name (Some name) = Inr n" by (auto simp: s)
  define w1 where "w1 = fetched (artifact_url self name) e b w"
  define w2 where "w2 = installed name rc w1"
  define self1 where
    "self1 = self\<lparr>return_codes := (rcs_pre @ [rc = 0]) @ replicate (length slots) False\<rparr>"
  from Cons.prems(7) have res: "resolve_path name = Entry e"
    and http: "e_http_get en (artifact_url self name) = Inr b"
    and dpkg: "e_dpkg en w1 name = Inr rc"
    and rest: "answered en self slots w2"
    by (simp_all add: s w1_def w2_def)
  have g: "get_deb en self (Some name) w = (Inr (), w1)"
    unfolding w1_def by (rule get_deb_Inr [OF n res http])
  from Cons.prems(2) have notin: "Some name \<notin> set (map Some pre)" by (auto simp: s)
  have idx: "py_index (packages self) (Some name) = Inr (length pre)"
    using py_index_append_distinct [OF notin, of "map Some (map fst slots)"] Cons.prems(1)
    by (simp add: s)
  have lt: "length pre < length (return_codes self)"
    using Cons.prems(4,5) by simp
  have upd: "(return_codes self)[length pre := True] = (rcs_pre @ [True]) @ replicate (length slots) False"
    using Cons.prems(4,5) by (simp add: list_update_append)
  have rc: "rc_check rc (Some name) self = Inr self1"
  proof (cases "rc = 0")
    case True
    with rc_check_eq [OF n idx lt, of rc] upd show ?thesis by (simp add: self1_def)
  next
    case False
    have "self\<lparr>return_codes := (rcs_pre @ [False]) @ replicate (length slots) False\<rparr> = self"
      using Cons.prems(4) by simp
    with False rc_check_eq [OF n idx lt, of rc] show ?thesis by (simp add: self1_def)
  qed
  have i: "install_deb en (Some name) self w1 = (Inr self1, w2)"
    unfolding install_deb_Inr_iff w2_def using dpkg Cons.prems(6) n rc by blast
  have step: "install_loop en (map Some (map fst (s # slots))) self w
      = install_loop en (map Some (map fst slots)) self1 w2"
    by (simp add: s g i)
  have same: "URL self1 = URL self" "kernel_version self1 = kernel_version self"
    by (simp_all add: self1_def)
  have IH: "install_loop en (map Some (map fst slots)) self1 w2 =
     (Inr (self1\<lparr>return_codes := (rcs_pre @ [rc = 0]) @ map (\<lambda>(name, e, b, rc). rc = 0) slots\<rparr>),
      after_slots self1 slots w2)"
  proof (rule Cons.IH [of self1 "pre @ [name]" "rcs_pre @ [rc = 0]" w2])
    show "packages self1 = map Some ((pre @ [name]) @ map fst slots)"
      using Cons.prems(1) by (simp add: self1_def s)
    show "distinct ((pre @ [name]) @ map fst slots)" using Cons.prems(2) by (simp add: s)
    show "\<forall>name\<in>set (map fst slots). \<exists>n. shorten_name (Some name) = Inr n"
      using Cons.prems(3) by simp
    show "return_codes self1 = (rcs_pre @ [rc = 0]) @ replicate (length slots) False"
      by (simp add: self1_def)
    show "length (rcs_pre @ [rc = 0]) = length (pre @ [name])" using Cons.prems(5) by simp
    show "e_sudo_pass en \<noteq> None" by (rule Cons.prems(6))
    show "answered en self1 slots w2" using rest answered_self [OF same] by simp
  qed
  show ?case
    unfolding step IH after_slots_self [OF same]
    by (simp add: s self1_def w1_def w2_def)
qed

section \<open>Running a complete plan\<close>

lemma last_opt_filter_Some: "last_opt (filter P xs) = Some x \<Longrightarrow> P x"
proof -
  assume a: "last_opt (filter P xs) = Some x"
  then have ne: "filter P xs \<noteq> []" and "last (filter P xs) = x"
    by (auto simp: last_opt_def split: if_splits)
  with last_in_set [OF ne] have "x \<in> set (filter P xs)" by simp
  then show "P x" by simp
qed

lemma deb_slots_classify:
  "deb_slots fs ! slot r = Some f \<Longrightarrow> classify f = Some r"
  using last_opt_filter_Some [of "\<lambda>c. classify c = Some r" fs f]
  by (simp add: deb_slots_nth)

lemma plan_distinct:
  assumes "deb_slots fs = [Some p0, Some p1, Some p2, Some p3]"
  shows "distinct [p0, p1, p2, p3]"
proof -
  have "classify p0 = Some HeadersCommon"
    using deb_slots_classify [of fs HeadersCommon p0] assms by simp
  moreover have "classify p1 = Some HeadersArch"
    using deb_slots_classify [of fs HeadersArch p1] assms by simp
  moreover have "classify p2 = Some Modules"
    using deb_slots_classify [of fs Modules p2] assms by simp
  moreover have "classify p3 = Some Image"
    using deb_slots_classify [of fs Image p3] assms by simp
  ultimately show ?thesis by auto
qed

lemma sample_no_failure: "no_failure (sample_env links tbl)"
  by (simp add: no_failure_def sample_env_def serve_url_def dpkg_table_def)

lemma calls_four_slots:
  "calls (w_trace (after_slots u [(p0, e0, b0, r0), (p1, e1, b1, r1), (p2, e2, b2, r2), (p3, e3, b3, r3)] w))
   = calls (w_trace w)
     @ [Requested (artifact_url u p0), Installed p0 r0,
        Requested (artifact_url u p1), Installed p1 r1,
        Requested (artifact_url u p2), Installed p2 r2,
        Requested (artifact_url u p3), Installed p3 r3]"
  by (simp add: calls_def fetched_def installed_def)

lemma files_four_slots:
  "w_files (after_slots u [(p0, e0, b0, r0), (p1, e1, b1, r1), (p2, e2, b2, r2), (p3, e3, b3, r3)] w)
   = (w_files w)(e0 \<mapsto> b0, e1 \<mapsto> b1, e2 \<mapsto> b2, e3 \<mapsto> b3)"
  by (simp add: fetched_def installed_def)

text \<open>
  C2, as the code has it. Let version resolution succeed, let the resolver return a
  complete plan, let each of its four names stand for an entry of the working directory,
  and let nothing fail in the environment: the password is set, every request is
  answered and every installer process starts. Then the run returns. The world it leaves
  is the world after fetching and installing the four slots in canonical order, each
  artifact requested from its URL under the version directory, written to its entry with
  the bytes \<open>b0\<close> to \<open>b3\<close> that the server answers, and then installed with the exit
  status \<open>r0\<close> to \<open>r3\<close> that its installer process ends with; so the calls the run adds
  to the trace are, slot by slot, the request and then the installer run, for all four
  slots whatever the exit statuses are. The flag of each slot is true iff its exit status
  is 0, and the value \<^verbatim>\<open>main\<close> tests is the conjunction of the four flags.
\<close>

theorem complete_plan_run:
  assumes "update (e_marker en) = Inr k"
    and "fetch_deb_lst (e_links en) ''amd64'' = Inr [Some p0, Some p1, Some p2, Some p3]"
    and "resolve_path p0 = Entry e0" and "resolve_path p1 = Entry e1"
    and "resolve_path p2 = Entry e2" and "resolve_path p3 = Entry e3"
    and "no_failure en"
  shows "\<exists>u w' b0 r0 b1 r1 b2 r2 b3 r3.
           Upgrade_init en w = (Inr u, w')
         \<and> URL u = ''https://kernel.ubuntu.com/~kernel-ppa/mainline''
         \<and> kernel_version u = ver_str k
         \<and> packages u = [Some p0, Some p1, Some p2, Some p3]
         \<and> answered en u [(p0, e0, b0, r0), (p1, e1, b1, r1), (p2, e2, b2, r2), (p3, e3, b3, r3)] w
         \<and> w' = after_slots u [(p0, e0, b0, r0), (p1, e1, b1, r1), (p2, e2, b2, r2), (p3, e3, b3, r3)] w
         \<and> calls (w_trace w') = calls (w_trace w)
             @ [Requested (artifact_url u p0), Installed p0 r0,
                Requested (artifact_url u p1), Installed p1 r1,
                Requested (artifact_url u p2), Installed p2 r2,
                Requested (artifact_url u p3), Installed p3 r3]
         \<and> w_files w' = (w_files w)(e0 \<mapsto> b0, e1 \<mapsto> b1, e2 \<mapsto> b2, e3 \<mapsto> b3)
         \<and> return_codes u = [r0 = 0, r1 = 0, r2 = 0, r3 = 0]
         \<and> main en w = (Inr (r0 = 0 \<and> r1 = 0 \<and> r2 = 0 \<and> r3 = 0), w')"
proof -
  define self where "self =
     \<lparr>major = major k, minor = minor k, revision = revision k,
      ver_lst = ver_lst k, ver_str = ver_str k,
      URL = ''https://kernel.ubuntu.com/~kernel-ppa/mainline'',
      return_codes = [False, False, False, False],
      kernel_version = get_latest_ver k,
      packages = [Some p0, Some p1, Some p2, Some p3]\<rparr>"
  from assms(7) have pw: "e_sudo_pass en \<noteq> None"
    and http: "\<And>url. \<exists>bytes. e_http_get en url = Inr bytes"
    and dpkg: "\<And>w name. \<exists>rc. e_dpkg en w name = Inr rc"
    by (simp_all add: no_failure_def)
  from http obtain b0 where b0: "e_http_get en (artifact_url self p0) = Inr b0" by blast
  define f0 where "f0 = fetched (artifact_url self p0) e0 b0 w"
  from dpkg obtain r0 where r0: "e_dpkg en f0 p0 = Inr r0" by blast
  define w0 where "w0 = installed p0 r0 f0"
  from http obtain b1 where b1: "e_http_get en (artifact_url self p1) = Inr b1" by blast
  define f1 where "f1 = fetched (artifact_url self p1) e1 b1 w0"
  from dpkg obtain r1 where r1: "e_dpkg en f1 p1 = Inr r1" by blast
  define w1 where "w1 = installed p1 r1 f1"
  from http obtain b2 where b2: "e_http_get en (artifact_url self p2) = Inr b2" by blast
  define f2 where "f2 = fetched (artifact_url self p2) e2 b2 w1"
  from dpkg obtain r2 where r2: "e_dpkg en f2 p2 = Inr r2" by blast
  define w2 where "w2 = installed p2 r2 f2"
  from http obtain b3 where b3: "e_http_get en (artifact_url self p3) = Inr b3" by blast
  define f3 where "f3 = fetched (artifact_url self p3) e3 b3 w2"
  from dpkg obtain r3 where r3: "e_dpkg en f3 p3 = Inr r3" by blast
  define slots where "slots = [(p0, e0, b0, r0), (p1, e1, b1, r1), (p2, e2, b2, r2), (p3, e3, b3, r3)]"
  have names: "map fst slots = [p0, p1, p2, p3]" by (simp add: slots_def)
  have ans: "answered en self slots w"
    unfolding slots_def
    using assms(3-6) b0 r0 b1 r1 b2 r2 b3 r3
    by (simp add: f0_def w0_def f1_def w1_def f2_def w2_def f3_def)
  have pk: "packages self = map Some ([] @ map fst slots)"
    by (simp add: self_def names)
  have rc0: "return_codes self = [] @ replicate (length slots) False"
    by (simp add: self_def slots_def numeral_eq_Suc)
  from assms(2) have ds: "deb_slots (candidates ''amd64'' (e_links en)) = [Some p0, Some p1, Some p2, Some p3]"
    and short: "\<forall>x\<in>set [Some p0, Some p1, Some p2, Some p3]. \<exists>n. shorten_name x = Inr n"
    by (simp_all add: fetch_deb_lst_eq deb_sort_Inr_iff)
  have d: "distinct ([] @ map fst slots)"
    using plan_distinct [OF ds] by (simp add: names)
  from short have sh: "\<forall>name\<in>set (map fst slots). \<exists>n. shorten_name (Some name) = Inr n"
    by (simp add: names)
  define u where "u = self\<lparr>return_codes := [] @ map (\<lambda>(name, e, b, rc). rc = 0) slots\<rparr>"
  define w' where "w' = after_slots self slots w"
  have loop: "install_loop en (map Some (map fst slots)) self w = (Inr u, w')"
    unfolding u_def w'_def by (rule install_loop_answered [OF pk d sh rc0 _ pw ans]) simp
  have "Upgrade_init en w = install_loop en (map Some (map fst slots)) self w"
    using assms(1,2) by (simp add: Upgrade_init_def install_all_debs_def self_def names)
  with loop have init: "Upgrade_init en w = (Inr u, w')" by simp
  have same: "URL u = URL self" "kernel_version u = kernel_version self"
    by (simp_all add: u_def)
  have uurl: "URL u = ''https://kernel.ubuntu.com/~kernel-ppa/mainline''"
    and uver: "kernel_version u = ver_str k"
    by (simp_all add: u_def self_def get_latest_ver_def)
  have upk: "packages u = [Some p0, Some p1, Some p2, Some p3]"
    by (simp add: u_def self_def)
  have urc: "return_codes u = [r0 = 0, r1 = 0, r2 = 0, r3 = 0]"
    by (simp add: u_def slots_def)
  have uans: "answered en u [(p0, e0, b0, r0), (p1, e1, b1, r1), (p2, e2, b2, r2), (p3, e3, b3, r3)] w"
    using ans unfolding answered_self [OF same] slots_def .
  have uw: "w' = after_slots u [(p0, e0, b0, r0), (p1, e1, b1, r1), (p2, e2, b2, r2), (p3, e3, b3, r3)] w"
    unfolding w'_def after_slots_self [OF same] slots_def ..
  have tr: "calls (w_trace w') = calls (w_trace w)
             @ [Requested (artifact_url u p0), Installed p0 r0,
                Requested (artifact_url u p1), Installed p1 r1,
                Requested (artifact_url u p2), Installed p2 r2,
                Requested (artifact_url u p3), Installed p3 r3]"
    unfolding uw by (rule calls_four_slots)
  have fl: "w_files w' = (w_files w)(e0 \<mapsto> b0, e1 \<mapsto> b1, e2 \<mapsto> b2, e3 \<mapsto> b3)"
    unfolding uw by (rule files_four_slots)
  have m: "main en w = (Inr (r0 = 0 \<and> r1 = 0 \<and> r2 = 0 \<and> r3 = 0), w')"
    by (simp add: main_def init urc)
  from init uurl uver upk uans uw tr fl urc m show ?thesis by blast
qed

lemma sample_complete_plan:
  "fetch_deb_lst
     [''linux-headers-6.2.1-060201-generic_6.2.1_amd64.deb'',
      ''linux-headers-6.2.1-060201_all.deb'',
      ''linux-modules-6.2.1-060201-generic_6.2.1_amd64.deb'',
      ''linux-image-unsigned-6.2.1-060201-generic_6.2.1_amd64.deb'',
      ''amd64/BUILD.LOG.amd64'',
      ''linux-image-unsigned-6.2.1-060201-lowlatency_6.2.1_amd64.deb''] ''amd64''
   = Inr [Some ''linux-headers-6.2.1-060201_all.deb'',
          Some ''linux-headers-6.2.1-060201-generic_6.2.1_amd64.deb'',
          Some ''linux-modules-6.2.1-060201-generic_6.2.1_amd64.deb'',
          Some ''linux-image-unsigned-6.2.1-060201-generic_6.2.1_amd64.deb'']"
  by code_simp

lemma sample_version:
  "update (e_marker (sample_env links tbl))
     = Inr \<lparr>major = ''6'', minor = ''2'', revision = ''1'',
            ver_lst = [''6'', ''2'', ''1''], ver_str = ''6.2.1''\<rparr>"
  by (simp add: sample_env_def update_Some py_strip_def py_isspace_def)

theorem complete_plan_run_witness:
  "fetch_deb_lst (e_links (sample_env
        [''linux-headers-6.2.1-060201-generic_6.2.1_amd64.deb'',
         ''linux-headers-6.2.1-060201_all.deb'',
         ''linux-modules-6.2.1-060201-generic_6.2.1_amd64.deb'',
         ''linux-image-unsigned-6.2.1-060201-generic_6.2.1_amd64.deb'',
         ''amd64/BUILD.LOG.amd64'',
         ''linux-image-unsigned-6.2.1-060201-lowlatency_6.2.1_amd64.deb'']
        [(''linux-modules-6.2.1-060201-generic_6.2.1_amd64.deb'', 1)])) ''amd64''
     = Inr [Some ''linux-headers-6.2.1-060201_all.deb'',
            Some ''linux-headers-6.2.1-060201-generic_6.2.1_amd64.deb'',
            Some ''linux-modules-6.2.1-060201-generic_6.2.1_amd64.deb'',
            Some ''linux-image-unsigned-6.2.1-060201-generic_6.2.1_amd64.deb'']
   \<and> no_failure (sample_env
        [''linux-headers-6.2.1-060201-generic_6.2.1_amd64.deb'',
         ''linux-headers-6.2.1-060201_all.deb'',
         ''linux-modules-6.2.1-060201-generic_6.2.1_amd64.deb'',
         ''linux-image-unsigned-6.2.1-060201-generic_6.2.1_amd64.deb'',
         ''amd64/BUILD.LOG.amd64'',
         ''linux-image-unsigned-6.2.1-060201-lowlatency_6.2.1_amd64.deb'']
        [(''linux-modules-6.2.1-060201-generic_6.2.1_amd64.deb'', 1)])
   \<and> (\<exists>u w'.
        Upgrade_init (sample_env
          [''linux-headers-6.2.1-060201-generic_6.2.1_amd64.deb'',
           ''linux-headers-6.2.1-060201_all.deb'',
           ''linux-modules-6.2.1-060201-generic_6.2.1_amd64.deb'',
           ''linux-image-unsigned-6.2.1-060201-generic_6.2.1_amd64.deb'',
           ''amd64/BUILD.LOG.amd64'',
           ''linux-image-unsigned-6.2.1-060201-lowlatency_6.2.1_amd64.deb'']
          [(''linux-modules-6.2.1-060201-generic_6.2.1_amd64.deb'', 1)]) empty_world = (Inr u, w')
      \<and> return_codes u = [True, True, False, True]
      \<and> main (sample_env
          [''linux-headers-6.2.1-060201-generic_6.2.1_amd64.deb'',
           ''linux-headers-6.2.1-060201_all.deb'',
           ''linux-modules-6.2.1-060201-generic_6.2.1_amd64.deb'',
           ''linux-image-unsigned-6.2.1-060201-generic_6.2.1_amd64.deb'',
           ''amd64/BUILD.LOG.amd64'',
           ''linux-image-unsigned-6.2.1-060201-lowlatency_6.2.1_amd64.deb'']
          [(''linux-modules-6.2.1-060201-generic_6.2.1_amd64.deb'', 1)]) empty_world = (Inr False, w')
      \<and> calls (w_trace w') =
          [Requested ''https://kernel.ubuntu.com/~kernel-ppa/mainline/v6.2.1/linux-headers-6.2.1-060201_all.deb'',
           Installed ''linux-headers-6.2.1-060201_all.deb'' 0,
           Requested ''https://kernel.ubuntu.com/~kernel-ppa/mainline/v6.2.1/linux-headers-6.2.1-060201-generic_6.2.1_amd64.deb'',
           Installed ''linux-headers-6.2.1-060201-generic_6.2.1_amd64.deb'' 0,
           Requested ''https://kernel.ubuntu.com/~kernel-ppa/mainline/v6.2.1/linux-modules-6.2.1-060201-generic_6.2.1_amd64.deb'',
           Installed ''linux-modules-6.2.1-060201-generic_6.2.1_amd64.deb'' 1,
           Requested ''https://kernel.ubuntu.com/~kernel-ppa/mainline/v6.2.1/linux-image-unsigned-6.2.1-060201-generic_6.2.1_amd64.deb'',
           Installed ''linux-image-unsigned-6.2.1-060201-generic_6.2.1_amd64.deb'' 0]
      \<and> w_files w' ''linux-image-unsigned-6.2.1-060201-generic_6.2.1_amd64.deb''
          = Some ''https://kernel.ubuntu.com/~kernel-ppa/mainline/v6.2.1/linux-image-unsigned-6.2.1-060201-generic_6.2.1_amd64.deb''
      \<and> w_files w' ''linux-modules-6.2.1-060201-generic_6.2.1_amd64.deb''
          = Some ''https://kernel.ubuntu.com/~kernel-ppa/mainline/v6.2.1/linux-modules-6.2.1-060201-generic_6.2.1_amd64.deb'')"
proof -
  define ha where "ha = ''linux-headers-6.2.1-060201_all.deb''"
  define hg where "hg = ''linux-headers-6.2.1-060201-generic_6.2.1_amd64.deb''"
  define mo where "mo = ''linux-modules-6.2.1-060201-generic_6.2.1_amd64.deb''"
  define im where "im = ''linux-image-unsigned-6.2.1-060201-generic_6.2.1_amd64.deb''"
  define L where "L = [hg, ha, mo, im, ''amd64/BUILD.LOG.amd64'',
             ''linux-image-unsigned-6.2.1-060201-lowlatency_6.2.1_amd64.deb'']"
  define E where "E = sample_env L [(mo, 1)]"
  define K where "K = \<lparr>major = ''6'', minor = ''2'', revision = ''1'',
            ver_lst = [''6'', ''2'', ''1''], ver_str = ''6.2.1''\<rparr>"
  have v: "update (e_marker E) = Inr K"
    unfolding E_def K_def by (rule sample_version)
  have f: "fetch_deb_lst (e_links E) ''amd64'' = Inr [Some ha, Some hg, Some mo, Some im]"
    using sample_complete_plan by (simp add: E_def sample_env_def L_def ha_def hg_def mo_def im_def)
  have p: "resolve_path ha = Entry ha" "resolve_path hg = Entry hg"
    "resolve_path mo = Entry mo" "resolve_path im = Entry im"
    unfolding ha_def hg_def mo_def im_def by (rule sample_resolve)+
  have nf: "no_failure E" unfolding E_def by (rule sample_no_failure)
  from complete_plan_run [OF v f p nf, of empty_world] obtain u w' b0 r0 b1 r1 b2 r2 b3 r3
    where init: "Upgrade_init E empty_world = (Inr u, w')"
      and url: "URL u = ''https://kernel.ubuntu.com/~kernel-ppa/mainline''"
      and ver: "kernel_version u = ver_str K"
      and ans: "answered E u [(ha, ha, b0, r0), (hg, hg, b1, r1), (mo, mo, b2, r2), (im, im, b3, r3)] empty_world"
      and tr: "calls (w_trace w') = calls (w_trace empty_world)
             @ [Requested (artifact_url u ha), Installed ha r0,
                Requested (artifact_url u hg), Installed hg r1,
                Requested (artifact_url u mo), Installed mo r2,
                Requested (artifact_url u im), Installed im r3]"
      and fl: "w_files w' = (w_files empty_world)(ha \<mapsto> b0, hg \<mapsto> b1, mo \<mapsto> b2, im \<mapsto> b3)"
      and rcs: "return_codes u = [r0 = 0, r1 = 0, r2 = 0, r3 = 0]"
      and m: "main E empty_world = (Inr (r0 = 0 \<and> r1 = 0 \<and> r2 = 0 \<and> r3 = 0), w')"
    by blast
  have au: "artifact_url u name = ''https://kernel.ubuntu.com/~kernel-ppa/mainline/v6.2.1/'' @ name" for name
    by (simp add: artifact_url_def url ver K_def)
  have ne: "mo \<noteq> ha" "mo \<noteq> hg" "mo \<noteq> im"
    by (simp_all add: mo_def ha_def hg_def im_def)
  from ans have b: "b2 = artifact_url u mo" "b3 = artifact_url u im"
    by (simp_all add: E_def sample_env_def serve_url_def)
  from ans ne have r: "r0 = 0" "r1 = 0" "r2 = 1" "r3 = 0"
    by (simp_all add: E_def sample_env_def dpkg_table_def)
  have e: "calls (w_trace empty_world) = []"
    by (simp add: calls_def empty_world_def)
  have c: "calls (w_trace w') =
          [Requested (''https://kernel.ubuntu.com/~kernel-ppa/mainline/v6.2.1/'' @ ha), Installed ha 0,
           Requested (''https://kernel.ubuntu.com/~kernel-ppa/mainline/v6.2.1/'' @ hg), Installed hg 0,
           Requested (''https://kernel.ubuntu.com/~kernel-ppa/mainline/v6.2.1/'' @ mo), Installed mo 1,
           Requested (''https://kernel.ubuntu.com/~kernel-ppa/mainline/v6.2.1/'' @ im), Installed im 0]"
    unfolding tr e au r by simp
  from ne have fim: "w_files w' im = Some (''https://kernel.ubuntu.com/~kernel-ppa/mainline/v6.2.1/'' @ im)"
    and fmo: "w_files w' mo = Some (''https://kernel.ubuntu.com/~kernel-ppa/mainline/v6.2.1/'' @ mo)"
    unfolding fl b au by simp_all
  have rc: "return_codes u = [True, True, False, True]"
    unfolding rcs r by simp
  have m': "main E empty_world = (Inr False, w')"
    unfolding m r by simp
  have "fetch_deb_lst (e_links E) ''amd64'' = Inr [Some ha, Some hg, Some mo, Some im]
      \<and> no_failure E
      \<and> (\<exists>u w'. Upgrade_init E empty_world = (Inr u, w')
           \<and> return_codes u = [True, True, False, True]
           \<and> main E empty_world = (Inr False, w')
           \<and> calls (w_trace w') =
          [Requested (''https://kernel.ubuntu.com/~kernel-ppa/mainline/v6.2.1/'' @ ha), Installed ha 0,
           Requested (''https://kernel.ubuntu.com/~kernel-ppa/mainline/v6.2.1/'' @ hg), Installed hg 0,
           Requested (''https://kernel.ubuntu.com/~kernel-ppa/mainline/v6.2.1/'' @ mo), Installed mo 1,
           Requested (''https://kernel.ubuntu.com/~kernel-ppa/mainline/v6.2.1/'' @ im), Installed im 0]
           \<and> w_files w' im = Some (''https://kernel.ubuntu.com/~kernel-ppa/mainline/v6.2.1/'' @ im)
           \<and> w_files w' mo = Some (''https://kernel.ubuntu.com/~kernel-ppa/mainline/v6.2.1/'' @ mo))"
    using f nf init rc m' c fim fmo by blast
  then show ?thesis
    unfolding E_def L_def ha_def hg_def mo_def im_def by simp
qed

text \<open>
  The links of a listing page whose link texts carry the architecture directory, the form
  \<^verbatim>\<open>amd64/linux-...deb\<close>.
\<close>

lemma sample_prefixed_plan:
  "fetch_deb_lst
     [''amd64/linux-headers-6.2.1-060201-generic_6.2.1_amd64.deb'',
      ''amd64/linux-headers-6.2.1-060201_all.deb'',
      ''amd64/linux-modules-6.2.1-060201-generic_6.2.1_amd64.deb'',
      ''amd64/linux-image-unsigned-6.2.1-060201-generic_6.2.1_amd64.deb''] ''amd64''
   = Inr [Some ''amd64/linux-headers-6.2.1-060201_all.deb'',
          Some ''amd64/linux-headers-6.2.1-060201-generic_6.2.1_amd64.deb'',
          Some ''amd64/linux-modules-6.2.1-060201-generic_6.2.1_amd64.deb'',
          Some ''amd64/linux-image-unsigned-6.2.1-060201-generic_6.2.1_amd64.deb'']"
  by code_simp

lemma sample_prefixed_run:
  "fst (main (sample_env
        [''amd64/linux-headers-6.2.1-060201-generic_6.2.1_amd64.deb'',
         ''amd64/linux-headers-6.2.1-060201_all.deb'',
         ''amd64/linux-modules-6.2.1-060201-generic_6.2.1_amd64.deb'',
         ''amd64/linux-image-unsigned-6.2.1-060201-generic_6.2.1_amd64.deb''] []) empty_world)
     = Inl FileNotFoundError
   \<and> w_trace (snd (main (sample_env
        [''amd64/linux-headers-6.2.1-060201-generic_6.2.1_amd64.deb'',
         ''amd64/linux-headers-6.2.1-060201_all.deb'',
         ''amd64/linux-modules-6.2.1-060201-generic_6.2.1_amd64.deb'',
         ''amd64/linux-image-unsigned-6.2.1-060201-generic_6.2.1_amd64.deb''] []) empty_world))
     = [Requested ''https://kernel.ubuntu.com/~kernel-ppa/mainline/v6.2.1/amd64/linux-headers-6.2.1-060201_all.deb'']"
  by code_simp

text \<open>
  C2 as stated, on a listing whose link texts carry the architecture directory: the plan
  is complete, the password is set, every request is answered and every installer
  process would start, yet the run ends at the first slot. The artifact is requested, then \<^verbatim>\<open>open\<close> raises FileNotFoundError, the
  working directory having no subdirectory \<^verbatim>\<open>amd64\<close>; nothing is written, no
  installer is run, and the other three slots are never reached.
\<close>

theorem complete_plan_stops_counterexample:
  "fetch_deb_lst (e_links (sample_env
        [''amd64/linux-headers-6.2.1-060201-generic_6.2.1_amd64.deb'',
         ''amd64/linux-headers-6.2.1-060201_all.deb'',
         ''amd64/linux-modules-6.2.1-060201-generic_6.2.1_amd64.deb'',
         ''amd64/linux-image-unsigned-6.2.1-060201-generic_6.2.1_amd64.deb''] [])) ''amd64''
     = Inr [Some ''amd64/linux-headers-6.2.1-060201_all.deb'',
            Some ''amd64/linux-headers-6.2.1-060201-generic_6.2.1_amd64.deb'',
            Some ''amd64/linux-modules-6.2.1-060201-generic_6.2.1_amd64.deb'',
            Some ''amd64/linux-image-unsigned-6.2.1-060201-generic_6.2.1_amd64.deb'']
   \<and> update (e_marker (sample_env
        [''amd64/linux-headers-6.2.1-060201-generic_6.2.1_amd64.deb'',
         ''amd64/linux-headers-6.2.1-060201_all.deb'',
         ''amd64/linux-modules-6.2.1-060201-generic_6.2.1_amd64.deb'',
         ''amd64/linux-image-unsigned-6.2.1-060201-generic_6.2.1_amd64.deb''] []))
     = Inr \<lparr>major = ''6'', minor = ''2'', revision = ''1'',
            ver_lst = [''6'', ''2'', ''1''], ver_str = ''6.2.1''\<rparr>
   \<and> no_failure (sample_env
        [''amd64/linux-headers-6.2.1-060201-generic_6.2.1_amd64.deb'',
         ''amd64/linux-headers-6.2.1-060201_all.deb'',
         ''amd64/linux-modules-6.2.1-060201-generic_6.2.1_amd64.deb'',
         ''amd64/linux-image-unsigned-6.2.1-060201-generic_6.2.1_amd64.deb''] [])
   \<and> fst (main (sample_env
        [''amd64/linux-headers-6.2.1-060201-generic_6.2.1_amd64.deb'',
         ''amd64/linux-headers-6.2.1-060201_all.deb'',
         ''amd64/linux-modules-6.2.1-060201-generic_6.2.1_amd64.deb'',
         ''amd64/linux-image-unsigned-6.2.1-060201-generic_6.2.1_amd64.deb''] []) empty_world)
     = Inl FileNotFoundError
   \<and> w_trace (snd (main (sample_env
        [''amd64/linux-headers-6.2.1-060201-generic_6.2.1_amd64.deb'',
         ''amd64/linux-headers-6.2.1-060201_all.deb'',
         ''amd64/linux-modules-6.2.1-060201-generic_6.2.1_amd64.deb'',
         ''amd64/linux-image-unsigned-6.2.1-060201-generic_6.2.1_amd64.deb''] []) empty_world))
     = [Requested ''https://kernel.ubuntu.com/~kernel-ppa/mainline/v6.2.1/amd64/linux-headers-6.2.1-060201_all.deb'']"
proof -
  define L where "L = [''amd64/linux-headers-6.2.1-060201-generic_6.2.1_amd64.deb'',
         ''amd64/linux-headers-6.2.1-060201_all.deb'',
         ''amd64/linux-modules-6.2.1-060201-generic_6.2.1_amd64.deb'',
         ''amd64/linux-image-unsigned-6.2.1-060201-generic_6.2.1_amd64.deb'']"
  have el: "e_links (sample_env L []) = L" by (simp add: sample_env_def)
  have a: "fetch_deb_lst (e_links (sample_env L [])) ''amd64''
     = Inr [Some ''amd64/linux-headers-6.2.1-060201_all.deb'',
            Some ''amd64/linux-headers-6.2.1-060201-generic_6.2.1_amd64.deb'',
            Some ''amd64/linux-modules-6.2.1-060201-generic_6.2.1_amd64.deb'',
            Some ''amd64/linux-image-unsigned-6.2.1-060201-generic_6.2.1_amd64.deb'']"
    unfolding el unfolding L_def by (rule sample_prefixed_plan)
  note b = sample_version [of L "[]"]
  note c = sample_no_failure [of L "[]"]
  note d = sample_prefixed_run [folded L_def]
  from a b c d show ?thesis unfolding L_def by (intro conjI) simp_all
qed

text \<open>With the password not set, the run of a complete plan of plain names ends with
  TypeError in the first \<^verbatim>\<open>_install_deb\<close>.\<close>

lemma sample_password_unset:
  "fst (main ((sample_env
        [''linux-headers-6.2.1-060201-generic_6.2.1_amd64.deb'',
         ''linux-headers-6.2.1-060201_all.deb'',
         ''linux-modules-6.2.1-060201-generic_6.2.1_amd64.deb'',
         ''linux-image-unsigned-6.2.1-060201-generic_6.2.1_amd64.deb''] [])\<lparr>e_sudo_pass := None\<rparr>)
        empty_world)
     = Inl TypeError"
  by code_simp

section \<open>Where a success is recorded\<close>

lemma shorten_name_Inr_Some: "shorten_name d = Inr n \<Longrightarrow> \<exists>name. d = Some name"
  by (cases d) (simp_all add: shorten_name_None)

lemma rc_check_member:
  assumes "shorten_name deb = Inr n" "deb \<in> set (packages self)"
    "length (packages self) \<le> length (return_codes self)"
  shows "\<exists>i. py_index (packages self) deb = Inr i \<and> i < length (packages self)
           \<and> rc_check rc deb self =
               Inr (if rc = 0 then self\<lparr>return_codes := (return_codes self)[i := True]\<rparr> else self)"
proof -
  from py_index_member [OF assms(2)] obtain i where i: "py_index (packages self) deb = Inr i"
    by blast
  then have lt: "i < length (packages self)" by (simp add: py_index_first)
  with assms(3) have "i < length (return_codes self)" by simp
  from rc_check_eq [OF assms(1) i this] i lt show ?thesis by blast
qed

lemma install_loop_returns:
  assumes "\<forall>d\<in>set debs. d \<in> set (packages self) \<and> (\<exists>n. shorten_name d = Inr n)"
    and "length (packages self) \<le> length (return_codes self)"
    and "no_failure en"
    and "\<forall>name. Some name \<in> set debs \<longrightarrow> (\<exists>e. resolve_path name = Entry e)"
  shows "\<exists>self' w'. install_loop en debs self w = (Inr self', w')"
  using assms(1,2,4)
proof (induction debs arbitrary: self w)
  case Nil
  show ?case by simp
next
  case (Cons d debs)
  from assms(3) have pw: "e_sudo_pass en \<noteq> None"
    and http: "\<And>url. \<exists>bytes. e_http_get en url = Inr bytes"
    and dpkg: "\<And>w name. \<exists>rc. e_dpkg en w name = Inr rc"
    by (simp_all add: no_failure_def)
  from Cons.prems(1) obtain n where n: "shorten_name d = Inr n" and mem: "d \<in> set (packages self)"
    by auto
  from shorten_name_Inr_Some [OF n] obtain name where d: "d = Some name" by blast
  from Cons.prems(3) d obtain e where e: "resolve_path name = Entry e" by auto
  from http obtain b where b: "e_http_get en (artifact_url self name) = Inr b" by blast
  define w1 where "w1 = fetched (artifact_url self name) e b w"
  from dpkg obtain rc where rc: "e_dpkg en w1 name = Inr rc" by blast
  define w2 where "w2 = installed name rc w1"
  from rc_check_member [OF n mem Cons.prems(2), of rc] obtain i0
    where chk: "rc_check rc d self =
        Inr (if rc = 0 then self\<lparr>return_codes := (return_codes self)[i0 := True]\<rparr> else self)"
    by blast
  define self1 where
    "self1 = (if rc = 0 then self\<lparr>return_codes := (return_codes self)[i0 := True]\<rparr> else self)"
  have pk1: "packages self1 = packages self" by (simp add: self1_def)
  have len1: "length (return_codes self1) = length (return_codes self)" by (simp add: self1_def)
  have g: "get_deb en self (Some name) w = (Inr (), w1)"
    unfolding w1_def using n by (intro get_deb_Inr [OF _ e b]) (simp add: d)
  have i: "install_deb en (Some name) self w1 = (Inr self1, w2)"
    unfolding install_deb_Inr_iff w2_def self1_def using rc pw n chk d by blast
  have step: "install_loop en (d # debs) self w = install_loop en debs self1 w2"
    by (simp add: d g i)
  have "\<forall>d\<in>set debs. d \<in> set (packages self1) \<and> (\<exists>n. shorten_name d = Inr n)"
    using Cons.prems(1) pk1 by simp
  moreover have "length (packages self1) \<le> length (return_codes self1)"
    using Cons.prems(2) pk1 len1 by simp
  moreover have "\<forall>name. Some name \<in> set debs \<longrightarrow> (\<exists>e. resolve_path name = Entry e)"
    using Cons.prems(3) by simp
  ultimately show ?case
    unfolding step by (rule Cons.IH)
qed

lemma install_loop_invariant:
  assumes "install_loop en debs self w = (Inr self', w')"
    and "length (packages self) \<le> length (return_codes self)"
  shows "\<exists>tr. w_trace w' = w_trace w @ tr
           \<and> packages self' = packages self
           \<and> length (return_codes self') = length (return_codes self)
           \<and> (\<forall>k<length (packages self).
                 return_codes self' ! k \<longleftrightarrow>
                   return_codes self ! k
                   \<or> (py_index (packages self) (packages self ! k) = Inr k
                      \<and> (\<exists>name. packages self ! k = Some name \<and> Installed name 0 \<in> set tr)))"
  using assms
proof (induction debs arbitrary: self w)
  case Nil
  then show ?case by simp
next
  case (Cons d debs)
  from Cons.prems(1) obtain name w1 self1 w2 where d: "d = Some name"
    and g: "get_deb en self (Some name) w = (Inr (), w1)"
    and i: "install_deb en (Some name) self w1 = (Inr self1, w2)"
    and loop: "install_loop en debs self1 w2 = (Inr self', w')"
    by (rule install_loop_Cons_Inr)
  from i obtain rc where chk: "rc_check rc d self = Inr self1" and w2: "w2 = installed name rc w1"
    unfolding install_deb_Inr_iff d by blast
  from get_deb_trace [OF g] obtain t1
    where t1: "w_trace w1 = w_trace w @ t1" "\<forall>nm rc. Installed nm rc \<notin> set t1"
    by blast
  note cases_chk = rc_check_Inr [OF chk]
  have pk1: "packages self1 = packages self"
    using cases_chk by auto
  have len1: "length (return_codes self1) = length (return_codes self)"
    using cases_chk by auto
  have rcs1: "return_codes self1 ! k \<longleftrightarrow>
      return_codes self ! k \<or> (rc = 0 \<and> py_index (packages self) d = Inr k)"
    if k: "k < length (packages self)" for k
  proof (cases "rc = 0")
    case False
    with cases_chk show ?thesis by simp
  next
    case True
    with cases_chk obtain i0 where i0: "py_index (packages self) d = Inr i0"
      and s1: "self1 = self\<lparr>return_codes := (return_codes self)[i0 := True]\<rparr>"
      by auto
    from k Cons.prems(2) have "k < length (return_codes self)" by simp
    then show ?thesis
      by (cases "k = i0") (simp_all add: s1 i0 True)
  qed
  have le1: "length (packages self1) \<le> length (return_codes self1)"
    using Cons.prems(2) pk1 len1 by simp
  from Cons.IH [OF loop le1] obtain tr2
    where tr2: "w_trace w' = w_trace w2 @ tr2"
      and pk': "packages self' = packages self1"
      and len': "length (return_codes self') = length (return_codes self1)"
      and inv: "\<forall>k<length (packages self1).
                 return_codes self' ! k \<longleftrightarrow>
                   return_codes self1 ! k
                   \<or> (py_index (packages self1) (packages self1 ! k) = Inr k
                      \<and> (\<exists>name. packages self1 ! k = Some name \<and> Installed name 0 \<in> set tr2))"
    by blast
  define tr where "tr = t1 @ [Launched name, Installed name rc] @ tr2"
  have trace: "w_trace w' = w_trace w @ tr"
    using tr2 t1(1) by (simp add: tr_def w2 installed_def)
  have key: "return_codes self' ! k \<longleftrightarrow>
                   return_codes self ! k
                   \<or> (py_index (packages self) (packages self ! k) = Inr k
                      \<and> (\<exists>nm. packages self ! k = Some nm \<and> Installed nm 0 \<in> set tr))"
    if k: "k < length (packages self)" for k
  proof -
    have a: "return_codes self' ! k \<longleftrightarrow>
        return_codes self1 ! k
        \<or> (py_index (packages self) (packages self ! k) = Inr k
           \<and> (\<exists>nm. packages self ! k = Some nm \<and> Installed nm 0 \<in> set tr2))"
      using inv k pk1 by simp
    have b: "(rc = 0 \<and> py_index (packages self) d = Inr k) \<longleftrightarrow>
        (py_index (packages self) (packages self ! k) = Inr k
           \<and> (\<exists>nm. packages self ! k = Some nm
                \<and> Installed nm 0 \<in> set (t1 @ [Launched name, Installed name rc])))"
    proof
      assume l: "rc = 0 \<and> py_index (packages self) d = Inr k"
      then have "packages self ! k = d" by (simp add: py_index_first)
      with l d show "py_index (packages self) (packages self ! k) = Inr k
           \<and> (\<exists>nm. packages self ! k = Some nm
                \<and> Installed nm 0 \<in> set (t1 @ [Launched name, Installed name rc]))"
        by simp
    next
      assume r: "py_index (packages self) (packages self ! k) = Inr k
           \<and> (\<exists>nm. packages self ! k = Some nm
                \<and> Installed nm 0 \<in> set (t1 @ [Launched name, Installed name rc]))"
      then obtain nm where nm: "packages self ! k = Some nm"
        "Installed nm 0 \<in> set (t1 @ [Launched name, Installed name rc])" by blast
      with t1(2) have "nm = name" "rc = 0" by auto
      with nm(1) r d show "rc = 0 \<and> py_index (packages self) d = Inr k" by simp
    qed
    from a rcs1 [OF k] b show ?thesis unfolding tr_def by auto
  qed
  from trace pk' pk1 len' len1 key show ?case
    by (intro exI [of _ tr]) simp
qed

text \<open>
  C10. Let every slot of \<^verbatim>\<open>self.packages\<close> hold a name that can be shortened, and
  let there be a flag for every slot. Then \<^verbatim>\<open>_rc_check\<close> with exit status 0 sets the
  flag at the position \<^verbatim>\<open>self.packages.index\<close> returns, the first slot that holds the
  name. The installation loop returns when nothing fails in the environment and every
  name of the plan stands for an entry of the working directory. Whenever it returns,
  the flag of a slot is true afterwards iff it was true before, or the slot is the first
  occurrence of its name and an installer run on that name ended with status 0. So when
  two slots hold the same name, the flag of the later one keeps its initial value, and
  every success of either is recorded at the earlier.
\<close>

theorem install_records_first_occurrence:
  assumes "\<forall>d\<in>set (packages self). \<exists>n. shorten_name d = Inr n"
    and "length (return_codes self) = length (packages self)"
  shows "(\<forall>deb\<in>set (packages self).
            \<exists>i. py_index (packages self) deb = Inr i
               \<and> packages self ! i = deb \<and> (\<forall>j<i. packages self ! j \<noteq> deb)
               \<and> rc_check 0 deb self = Inr (self\<lparr>return_codes := (return_codes self)[i := True]\<rparr>))
       \<and> (no_failure en
            \<and> (\<forall>name. Some name \<in> set (packages self) \<longrightarrow> (\<exists>e. resolve_path name = Entry e))
          \<longrightarrow> (\<exists>self' w'. install_all_debs en self w = (Inr self', w')))
       \<and> (\<forall>self' w'. install_all_debs en self w = (Inr self', w') \<longrightarrow>
            (\<exists>tr.
               w_trace w' = w_trace w @ tr
             \<and> packages self' = packages self
             \<and> (\<forall>k<length (packages self).
                   return_codes self' ! k \<longleftrightarrow>
                     return_codes self ! k
                     \<or> (py_index (packages self) (packages self ! k) = Inr k
                        \<and> (\<exists>name. packages self ! k = Some name \<and> Installed name 0 \<in> set tr)))
             \<and> (\<forall>i j. i < j \<and> j < length (packages self) \<and> packages self ! i = packages self ! j
                   \<longrightarrow> return_codes self' ! j = return_codes self ! j)))"
proof -
  have le: "length (packages self) \<le> length (return_codes self)"
    using assms(2) by simp
  have first: "\<exists>i. py_index (packages self) deb = Inr i
               \<and> packages self ! i = deb \<and> (\<forall>j<i. packages self ! j \<noteq> deb)
               \<and> rc_check 0 deb self = Inr (self\<lparr>return_codes := (return_codes self)[i := True]\<rparr>)"
    if deb: "deb \<in> set (packages self)" for deb
  proof -
    from assms(1) deb obtain n where n: "shorten_name deb = Inr n" by blast
    from rc_check_member [OF n deb le, of 0] obtain i
      where i: "py_index (packages self) deb = Inr i"
        and r: "rc_check 0 deb self = Inr (self\<lparr>return_codes := (return_codes self)[i := True]\<rparr>)"
      by auto
    from i have "packages self ! i = deb" "\<forall>j<i. packages self ! j \<noteq> deb"
      by (simp_all add: py_index_first)
    with i r show ?thesis by blast
  qed
  have mem: "\<forall>d\<in>set (packages self). d \<in> set (packages self) \<and> (\<exists>n. shorten_name d = Inr n)"
    using assms(1) by simp
  have returns: "\<exists>self' w'. install_all_debs en self w = (Inr self', w')"
    if "no_failure en"
      and "\<forall>name. Some name \<in> set (packages self) \<longrightarrow> (\<exists>e. resolve_path name = Entry e)"
    unfolding install_all_debs_def by (rule install_loop_returns [OF mem le that])
  have after: "\<exists>tr.
               w_trace w' = w_trace w @ tr
             \<and> packages self' = packages self
             \<and> (\<forall>k<length (packages self).
                   return_codes self' ! k \<longleftrightarrow>
                     return_codes self ! k
                     \<or> (py_index (packages self) (packages self ! k) = Inr k
                        \<and> (\<exists>name. packages self ! k = Some name \<and> Installed name 0 \<in> set tr)))
             \<and> (\<forall>i j. i < j \<and> j < length (packages self) \<and> packages self ! i = packages self ! j
                   \<longrightarrow> return_codes self' ! j = return_codes self ! j)"
    if run: "install_all_debs en self w = (Inr self', w')" for self' w'
  proof -
    from run have "install_loop en (packages self) self w = (Inr self', w')"
      by (simp add: install_all_debs_def)
    from install_loop_invariant [OF this le] obtain tr
      where tr: "w_trace w' = w_trace w @ tr"
        and pk: "packages self' = packages self"
        and inv: "\<forall>k<length (packages self).
                return_codes self' ! k \<longleftrightarrow>
                  return_codes self ! k
                  \<or> (py_index (packages self) (packages self ! k) = Inr k
                     \<and> (\<exists>name. packages self ! k = Some name \<and> Installed name 0 \<in> set tr))"
      by blast
    have dup: "return_codes self' ! j = return_codes self ! j"
      if "i < j" "j < length (packages self)" "packages self ! i = packages self ! j" for i j
    proof -
      from that have "py_index (packages self) (packages self ! j) \<noteq> Inr j"
        by (auto simp: py_index_first)
      with inv that(2) show ?thesis by simp
    qed
    from tr pk inv dup show ?thesis by blast
  qed
  from first returns after show ?thesis by blast
qed

lemma sample_duplicate_run:
  "return_codes (projr (fst (install_all_debs (sample_env [] [])
      (sample_upgrade [Some ''linux-headers-6.2.1-060201_all.deb'',
                       Some ''linux-headers-6.2.1-060201-generic_6.2.1_amd64.deb'',
                       Some ''linux-headers-6.2.1-060201_all.deb'',
                       Some ''linux-image-unsigned-6.2.1-060201-generic_6.2.1_amd64.deb''])
      empty_world)))
   = [True, True, False, True]"
  by code_simp

theorem install_records_first_occurrence_witness:
  "length (return_codes (sample_upgrade
      [Some ''linux-headers-6.2.1-060201_all.deb'',
       Some ''linux-headers-6.2.1-060201-generic_6.2.1_amd64.deb'',
       Some ''linux-headers-6.2.1-060201_all.deb'',
       Some ''linux-image-unsigned-6.2.1-060201-generic_6.2.1_amd64.deb'']))
   = length (packages (sample_upgrade
      [Some ''linux-headers-6.2.1-060201_all.deb'',
       Some ''linux-headers-6.2.1-060201-generic_6.2.1_amd64.deb'',
       Some ''linux-headers-6.2.1-060201_all.deb'',
       Some ''linux-image-unsigned-6.2.1-060201-generic_6.2.1_amd64.deb'']))
   \<and> no_failure (sample_env [] [])
   \<and> (\<exists>self' w'.
        install_all_debs (sample_env [] [])
          (sample_upgrade
            [Some ''linux-headers-6.2.1-060201_all.deb'',
             Some ''linux-headers-6.2.1-060201-generic_6.2.1_amd64.deb'',
             Some ''linux-headers-6.2.1-060201_all.deb'',
             Some ''linux-image-unsigned-6.2.1-060201-generic_6.2.1_amd64.deb''])
          empty_world = (Inr self', w')
      \<and> return_codes self' ! 2 = False
      \<and> return_codes self' = [True, True, False, True])"
proof -
  define ha where "ha = ''linux-headers-6.2.1-060201_all.deb''"
  define hg where "hg = ''linux-headers-6.2.1-060201-generic_6.2.1_amd64.deb''"
  define im where "im = ''linux-image-unsigned-6.2.1-060201-generic_6.2.1_amd64.deb''"
  define S where "S = sample_upgrade [Some ha, Some hg, Some ha, Some im]"
  have pk: "packages S = [Some ha, Some hg, Some ha, Some im]"
    and rc: "return_codes S = [False, False, False, False]"
    by (simp_all add: S_def sample_upgrade_def)
  have a: "\<forall>d\<in>set (packages S). \<exists>n. shorten_name d = Inr n"
    using sample_shorten by (simp add: pk ha_def hg_def im_def)
  have b: "length (return_codes S) = length (packages S)"
    by (simp add: pk rc)
  have nf: "no_failure (sample_env [] [])" by (rule sample_no_failure)
  have res: "\<forall>name. Some name \<in> set (packages S) \<longrightarrow> (\<exists>e. resolve_path name = Entry e)"
    using sample_resolve by (auto simp: pk ha_def hg_def im_def)
  note T = install_records_first_occurrence [OF a b, of "sample_env [] []" empty_world]
  from T [THEN conjunct2, THEN conjunct1] nf res
  obtain self' w' where run: "install_all_debs (sample_env [] []) S empty_world = (Inr self', w')"
    by blast
  from T [THEN conjunct2, THEN conjunct2, rule_format, OF run]
  have dup: "\<forall>i j. i < j \<and> j < length (packages S) \<and> packages S ! i = packages S ! j
                \<longrightarrow> return_codes self' ! j = return_codes S ! j"
    by blast
  from dup [rule_format, of 0 2] have two: "return_codes self' ! 2 = False"
    by (simp add: pk rc)
  from run sample_duplicate_run have all: "return_codes self' = [True, True, False, True]"
    by (simp add: S_def ha_def hg_def im_def)
  from b nf run two all show ?thesis
    unfolding S_def ha_def hg_def im_def by blast
qed

end
